theory Spec2Isabelle
  imports Complex_Main
begin

section \<open>Numbers and the scene graph\<close>

text \<open>
  The avatar code is TypeScript. Its \<^verbatim>\<open>number\<close> values are modelled as real numbers:
  every formula below is the source's formula read over the reals, so rounding of IEEE
  doubles, \<^verbatim>\<open>NaN\<close> and the infinities are outside the model. Where the source can
  produce an infinity (a division by zero) the model says so with an explicit result.

  A scene is modelled by the sequence of nodes that \<^verbatim>\<open>model.traverse\<close> visits. A node is a
  mesh or something else (\<^verbatim>\<open>node instanceof THREE.Mesh\<close>); a mesh has an optional
  \<^verbatim>\<open>morphTargetDictionary\<close> (shape name to index) and an optional
  \<^verbatim>\<open>morphTargetInfluences\<close> array. The array is a JavaScript object, so it is modelled by
  its property map: the key \<open>Num i\<close> is element \<open>i\<close> (a write past the end extends the
  array), and the key \<open>Undefined\<close> is the property that \<^verbatim>\<open>a[undefined] = v\<close> would create.
  The map gives the number stored under a key; it is \<open>None\<close> where the key is absent or
  holds something that is not a number.
\<close>

datatype jsval = Undefined | Num nat

datatype js_error = TypeError | Error string | Rejected string

type_synonym influences = "jsval \<rightharpoonup> real"

record Mesh =
  morphTargetDictionary :: "(string \<rightharpoonup> nat) option"
  morphTargetInfluences :: "influences option"

datatype Object3D = MeshNode Mesh | OtherNode

type_synonym Scene = "Object3D list"

text \<open>Reading \<^verbatim>\<open>dict[name]\<close>: a \<^verbatim>\<open>TypeError\<close> when the dictionary is undefined, the value
  \<^verbatim>\<open>undefined\<close> when the name is not a key.\<close>

definition getIndex :: "(string \<rightharpoonup> nat) option \<Rightarrow> string \<Rightarrow> js_error + jsval" where
  "getIndex dict name =
     (case dict of
        None \<Rightarrow> Inl TypeError
      | Some d \<Rightarrow> Inr (case d name of None \<Rightarrow> Undefined | Some i \<Rightarrow> Num i))"

text \<open>The operator \<^verbatim>\<open>name in dict\<close>: a \<^verbatim>\<open>TypeError\<close> when the dictionary is undefined.\<close>

definition hasKey :: "(string \<rightharpoonup> nat) option \<Rightarrow> string \<Rightarrow> js_error + bool" where
  "hasKey dict name =
     (case dict of None \<Rightarrow> Inl TypeError | Some d \<Rightarrow> Inr (d name \<noteq> None))"

text \<open>The assignment \<^verbatim>\<open>influences[index] = value\<close>: a \<^verbatim>\<open>TypeError\<close> when the array is
  undefined; otherwise the property named by the index is set, whatever the index is.\<close>

definition setInfluence :: "influences option \<Rightarrow> jsval \<Rightarrow> real \<Rightarrow> js_error + influences" where
  "setInfluence buf index v =
     (case buf of None \<Rightarrow> Inl TypeError | Some b \<Rightarrow> Inr (b(index \<mapsto> v)))"

definition bindE :: "js_error + 'a \<Rightarrow> ('a \<Rightarrow> js_error + 'b) \<Rightarrow> js_error + 'b" where
  "bindE r f = (case r of Inl e \<Rightarrow> Inl e | Inr x \<Rightarrow> f x)"

text \<open>\<^verbatim>\<open>model.traverse(callback)\<close> with a callback that may throw: the nodes are visited in
  order and the first exception ends the traversal.\<close>

fun traverse :: "(Object3D \<Rightarrow> js_error + Object3D) \<Rightarrow> Scene \<Rightarrow> js_error + Scene" where
  "traverse f [] = Inr []"
| "traverse f (node # rest) =
     bindE (f node) (\<lambda>node'. bindE (traverse f rest) (\<lambda>rest'. Inr (node' # rest')))"

text \<open>\<^verbatim>\<open>FrequencyBands\<close>, declared alike by the lip-sync manager and by the audio
  analyzer. The source's field names are the letters \<^verbatim>\<open>O, A, E, I, U\<close>; they carry the
  prefix \<open>b\<close> here, since \<open>O\<close> is HOL's composition of relations.\<close>

record FrequencyBands =
  bO :: real
  bA :: real
  bE :: real
  bI :: real
  bU :: real

section \<open>EmotionAnalyzer\<close>

text \<open>
  A JavaScript string is a sequence of UTF-16 code units; it is modelled by the list of
  their numbers. The four lexicons are the source's \<^verbatim>\<open>Set\<close> literals in source order,
  each word written as its code units (all words are in the Basic Multilingual Plane, one
  unit per character).
\<close>

type_synonym jsstring = "nat list"

text \<open>\<^verbatim>\<open>new Set([...])\<close>: the elements in insertion order, a repeated element kept once.\<close>

fun newSet :: "'a list \<Rightarrow> 'a list" where
  "newSet [] = []"
| "newSet (w # ws) = w # filter (\<lambda>v. v \<noteq> w) (newSet ws)"

definition positiveWords :: "jsstring list" where
  "positiveWords = newSet
    [[12354, 12426, 12364, 12392, 12358], [12377, 12400, 12425, 12375, 12356],
     [32032, 26228, 12425, 12375, 12356], [33391, 12356], [12356, 12356],
     [27005, 12375, 12356], [23305, 12375, 12356], [21916, 12406], [31505, 12358],
     [38754, 30333, 12356], [12362, 12418, 12375, 12429, 12356], [26368, 39640],
     [26368, 33391], [20778, 31168], [32032, 25973], [12363, 12387, 12371, 12356, 12356],
     [32654, 12375, 12356], [32186, 40599], [12365, 12428, 12356],
     [12377, 12387, 12365, 12426], [12373, 12387, 12401, 12426], [29245, 12420, 12363],
     [24184, 12379], [24184, 31119], [28288, 36275], [28288, 36275, 24230],
     [23305, 12375, 12356], [12358, 12428, 12375, 12356], [23305, 23305],
     [12527, 12463, 12527, 12463], [12431, 12367, 12431, 12367], [12523, 12531, 12523, 12531],
     [12427, 12435, 12427, 12435], [12420, 12387, 12383], [12420, 12387, 12383, 12540],
     [12424, 12363, 12387, 12383], [33391, 12363, 12387, 12383], [24863, 28608],
     [24863, 21205], [24859, 12377, 12427], [24859, 12375, 12390, 12356, 12427],
     [24859, 12375, 12390, 12427], [22823, 22909, 12365], [12384, 12356, 12377, 12365],
     [22909, 12365, 12391, 12377], [12377, 12365, 12391, 12377], [25512, 12375, 12513, 12531],
     [12362, 12356, 12375, 12356], [32654, 21619, 12375, 12356], [12362, 12356, 12375, 12356],
     [24555, 36969], [12417, 12391, 12383, 12356], [12417, 12391, 12383, 12375],
     [12362, 12417, 12391, 12392, 12358],
     [12362, 12417, 12391, 12392, 12358, 12372, 12374, 12356, 12414, 12377]]"

definition negativeWords :: "jsstring list" where
  "negativeWords = newSet
    [[12388, 12425, 12356], [36763, 12356], [33510, 12375, 12356], [24754, 12375, 12356],
     [24754, 12375, 12416], [27875, 12367], [24594, 12427], [12416, 12363, 12388, 12367],
     [12416, 12363, 12387, 12367], [33145, 12364, 31435, 12388], [24598, 12356],
     [24656, 12429, 12375, 12356], [24656, 24598], [23244, 12356], [12365, 12425, 12356],
     [23244, 12384], [23244, 12391, 12377], [12414, 12378, 12356], [12414, 12378, 12356],
     [27738, 12356], [12365, 12383, 12394, 12356], [12365, 12383, 12394, 12540, 12356],
     [12358, 12427, 12373, 12356], [12358, 12427, 12373, 12540, 12356],
     [20116, 26376, 34687, 12356], [36864, 23624], [12388, 12414, 12425, 12394, 12356],
     [12388, 12414, 12425, 12435], [12388, 12414, 12435, 12394, 12356],
     [12388, 12414, 12435, 12394, 12356], [22833, 25943], [22833, 25943, 12375, 12383],
     [12375, 12367, 12387, 12383], [12375, 12367, 12376, 12387, 12383], [26368, 24746],
     [12373, 12356, 12354, 12367], [26368, 20302], [12373, 12356, 12390, 12356],
     [28797, 12356], [12431, 12374, 12431, 12356], [19981, 24184], [12405, 12371, 12358],
     [19981, 24184, 12379], [12405, 12375, 12354, 12431, 12379], [19981, 28288],
     [12405, 12414, 12435], [19981, 28288, 36275], [12405, 12414, 12435, 12382, 12367],
     [19981, 23433], [12405, 12354, 12435], [12358, 12435, 12374, 12426],
     [12358, 12435, 12374, 12426, 12384], [12370, 12435, 12394, 12426],
     [12370, 12435, 12394, 12426, 12377, 12427], [21574, 28982], [12412, 12358, 12380, 12435],
     [30171, 12356], [12356, 12383, 12356], [30149, 27671], [12403, 12423, 12358, 12365],
     [24739, 12358], [12431, 12378, 12425, 12358], [30149, 12416], [12420, 12416],
     [12367, 12383, 12403, 12428, 12427], [30130, 12428, 12427], [12388, 12363, 12428, 12427],
     [12375, 12435, 12393, 12356], [12384, 12427, 12356], [12368, 12387, 12383, 12426],
     [12408, 12392, 12408, 12392], [12412, 12429, 12412, 12429]]"

definition intensifiers :: "jsstring list" where
  "intensifiers = newSet
    [[12392, 12390, 12418], [26412, 24403, 12395], [12411, 12435, 12392, 12395],
     [12411, 12435, 12392, 12358, 12395], [12392, 12387, 12390, 12418],
     [12417, 12385, 12419, 12417, 12385, 12419], [12417, 12387, 12385, 12419],
     [12385, 12423, 12387, 12392], [12385, 12423, 12356, 12392], [12363, 12394, 12426],
     [38750, 24120, 12395], [12402, 12376, 12423, 12358, 12395], [12377, 12372, 12367],
     [12377, 12372, 12540, 12367], [12377, 12372, 12356], [12418, 12398, 12377, 12372, 12367],
     [29289, 20932, 12367], [12418, 12398, 12377, 12372, 12356], [29289, 20932, 12356],
     [12418, 12398, 20932, 12356], [12383, 12356, 12375, 12390], [22823, 12375, 12390],
     [12363, 12387, 12383, 12364], [29978, 12384, 12375, 12367],
     [12399, 12394, 12399, 12384, 12375, 12367], [12418, 12358, 26412, 24403, 12395],
     [12418, 12358, 26412, 24403], [12418, 12358], [12394, 12435, 12384, 12363],
     [12394, 12435, 12363], [12385, 12423, 12387, 12392]]"

definition mitigators :: "jsstring list" where
  "mitigators = newSet
    [[12385, 12423, 12387, 12392], [12385, 12423, 12356, 12392], [23569, 12375],
     [12377, 12371, 12375], [12420, 12420], [12414, 12354], [12414, 12354, 12414, 12354],
     [12414, 12354, 12414, 12354, 12414, 12354], [12431, 12426, 12392],
     [12431, 12426, 12395, 12399], [21106, 12426, 12392], [12381, 12371, 12381, 12371],
     [12411, 12393, 12411, 12393], [12414, 12354, 12414, 12354]]"

text \<open>\<^verbatim>\<open>String.prototype.includes\<close>: does the word occur as a contiguous run of code units?\<close>

fun startsWith :: "jsstring \<Rightarrow> jsstring \<Rightarrow> bool" where
  "startsWith text [] = True"
| "startsWith [] (c # cs) = False"
| "startsWith (t # ts) (c # cs) = (t = c \<and> startsWith ts cs)"

fun includesStr :: "jsstring \<Rightarrow> jsstring \<Rightarrow> bool" where
  "includesStr [] word = startsWith [] word"
| "includesStr (t # ts) word = (startsWith (t # ts) word \<or> includesStr ts word)"

datatype EmotionType = positive | negative | neutral

record EmotionScore =
  type :: EmotionType
  score :: real
  intensity :: real

text \<open>The two counting loops of \<^verbatim>\<open>analyze\<close>.\<close>

definition countHits :: "jsstring list \<Rightarrow> jsstring \<Rightarrow> nat" where
  "countHits words lowerText =
     fold (\<lambda>word count. if includesStr lowerText word then count + 1 else count) words 0"

text \<open>The two loops that adjust the intensity.\<close>

definition raiseIntensity :: "jsstring list \<Rightarrow> jsstring \<Rightarrow> real \<Rightarrow> real" where
  "raiseIntensity words lowerText =
     fold (\<lambda>word i. if includesStr lowerText word then min 1.0 (i + 0.1) else i) words"

definition lowerIntensity :: "jsstring list \<Rightarrow> jsstring \<Rightarrow> real \<Rightarrow> real" where
  "lowerIntensity words lowerText =
     fold (\<lambda>word i. if includesStr lowerText word then max 0.3 (i - 0.1) else i) words"

text \<open>\<^verbatim>\<open>analyze\<close>. The platform's \<^verbatim>\<open>String.prototype.toLowerCase\<close> is a parameter.\<close>

definition analyze :: "(jsstring \<Rightarrow> jsstring) \<Rightarrow> jsstring \<Rightarrow> EmotionScore" where
  "analyze toLowerCase text =
     (let lowerText = toLowerCase text;
          positiveCount = countHits positiveWords lowerText;
          negativeCount = countHits negativeWords lowerText;
          i = lowerIntensity mitigators lowerText (raiseIntensity intensifiers lowerText 1.0)
      in if positiveCount > negativeCount \<and> positiveCount > 0
         then \<lparr>type = positive,
               score = min 1.0 (real positiveCount / real (positiveCount + negativeCount + 1)),
               intensity = i\<rparr>
         else if negativeCount > positiveCount \<and> negativeCount > 0
         then \<lparr>type = negative,
               score = min 1.0 (real negativeCount / real (positiveCount + negativeCount + 1)),
               intensity = i\<rparr>
         else \<lparr>type = neutral, score = 0.5, intensity = 0.5\<rparr>)"

text \<open>Sample data: a text made of an intensifier, a positive word and a negative word.\<close>

definition tiedText :: jsstring where
  "tiedText = [12392, 12390, 12418, 23305, 12375, 12356, 24754, 12375, 12356]"

section \<open>AudioAnalyzer\<close>

text \<open>
  The platform is a parameter: what \<^verbatim>\<open>new AudioContext()\<close> gives (the sample rate of the
  new context, or the exception it throws), whether \<^verbatim>\<open>createAnalyser\<close> throws, what
  \<^verbatim>\<open>getUserMedia\<close> resolves to (a stream, or the rejection), what
  \<^verbatim>\<open>createMediaStreamSource\<close> gives, whether \<^verbatim>\<open>microphone.connect(analyser)\<close> and
  \<^verbatim>\<open>analyser.connect(destination)\<close> throw, the bytes that \<^verbatim>\<open>getByteFrequencyData\<close> delivers
  and the handle that \<^verbatim>\<open>requestAnimationFrame\<close> returns. Callbacks are function objects,
  modelled by identifiers; calling one is an event, and the platform says whether the call
  throws.
\<close>

record Platform =
  createAudioContext :: "js_error + real"
  createAnalyser :: "js_error + unit"
  getUserMedia :: "js_error + nat"
  createMediaStreamSource :: "js_error + nat"
  connectMicrophone :: "js_error + unit"
  connectAnalyser :: "js_error + unit"
  byteFrequencyData :: "nat list"
  volumeCallback :: "nat \<Rightarrow> real \<Rightarrow> js_error + unit"
  frequencyCallback :: "nat \<Rightarrow> FrequencyBands \<Rightarrow> js_error + unit"
  requestAnimationFrame :: nat

record AudioContext =
  sampleRate :: real

record AnalyserNode =
  fftSize :: nat
  frequencyBinCount :: nat

datatype AudioEvent =
    VolumeCallback nat real
  | FrequencyCallback nat FrequencyBands
  | FrameScheduled nat

record AudioAnalyzer =
  audioContext :: "AudioContext option"
  analyser :: "AnalyserNode option"
  microphone :: "nat option"
  animationFrameId :: "nat option"
  dataArray :: "nat list option"
  onVolumeChange :: "nat option"
  onFrequencyChange :: "nat option"
  isListening :: bool
  sampleRate :: real

definition newAudioAnalyzer :: AudioAnalyzer where
  "newAudioAnalyzer =
     \<lparr>audioContext = None, analyser = None, microphone = None, animationFrameId = None,
      dataArray = None, onVolumeChange = None, onFrequencyChange = None,
      isListening = False, sampleRate = 44100\<rparr>"

text \<open>\<^verbatim>\<open>initialize\<close>: the result is the exception, if any, and the state left behind.\<close>

definition initialize :: "Platform \<Rightarrow> AudioAnalyzer \<Rightarrow> (js_error + unit) \<times> AudioAnalyzer" where
  "initialize env a =
     (if audioContext a \<noteq> None then (Inr (), a)
      else case createAudioContext env of
             Inl e \<Rightarrow> (Inl e, a)
           | Inr rate \<Rightarrow>
               (let a1 = a\<lparr>audioContext := Some \<lparr>AudioContext.sampleRate = rate\<rparr>,
                          sampleRate := rate\<rparr>
                in case createAnalyser env of
                     Inl e \<Rightarrow> (Inl e, a1)
                   | Inr u \<Rightarrow>
                       (Inr (),
                        a1\<lparr>analyser := Some \<lparr>fftSize = 2048, frequencyBinCount = 1024\<rparr>,
                           dataArray := Some (replicate 1024 0)\<rparr>)))"

text \<open>\<^verbatim>\<open>getFrequencyBinRange\<close>; the sample rate of a context is positive.\<close>

definition getFrequencyBinRange :: "real \<Rightarrow> real \<Rightarrow> AudioAnalyzer \<Rightarrow> int \<times> int" where
  "getFrequencyBinRange minFreq maxFreq a =
     (case analyser a of
        None \<Rightarrow> (0, 0)
      | Some an \<Rightarrow>
          (let nyquist = sampleRate a / 2
           in (\<lfloor>(minFreq / nyquist) * real (frequencyBinCount an)\<rfloor>,
               \<lfloor>(maxFreq / nyquist) * real (frequencyBinCount an)\<rfloor>)))"

definition getFrequencyBandEnergy :: "real \<Rightarrow> real \<Rightarrow> AudioAnalyzer \<Rightarrow> real" where
  "getFrequencyBandEnergy minFreq maxFreq a =
     (case dataArray a of
        None \<Rightarrow> 0
      | Some data \<Rightarrow>
          if analyser a = None then 0
          else (let range = getFrequencyBinRange minFreq maxFreq a;
                    bins = take (nat (snd range - fst range)) (drop (nat (fst range)) data);
                    count = length bins
                in if count > 0 then real (sum_list bins) / real count / 255 else 0))"

definition extractFrequencyBands :: "AudioAnalyzer \<Rightarrow> FrequencyBands" where
  "extractFrequencyBands a =
     \<lparr>bO = getFrequencyBandEnergy 0 500 a,
      bA = getFrequencyBandEnergy 500 1500 a,
      bE = getFrequencyBandEnergy 1500 3000 a,
      bI = getFrequencyBandEnergy 3000 5000 a,
      bU = getFrequencyBandEnergy 5000 8000 a\<rparr>"

text \<open>One run of \<^verbatim>\<open>analyzeAudio\<close>: the exception of a callback that throws (if any), the
  new state and the events of the frame (the callbacks called, the next frame scheduled).
  A callback that throws ends the run before the next frame is scheduled.\<close>

definition analyzeAudio ::
  "Platform \<Rightarrow> AudioAnalyzer \<Rightarrow> (js_error + unit) \<times> AudioAnalyzer \<times> AudioEvent list" where
  "analyzeAudio env a =
     (case dataArray a of
        None \<Rightarrow> (Inr (), a, [])
      | Some old \<Rightarrow>
          if \<not> isListening a \<or> analyser a = None then (Inr (), a, [])
          else (let data = take (length old) (byteFrequencyData env @ replicate (length old) 0);
                    a1 = a\<lparr>dataArray := Some data\<rparr>;
                    average = real (sum_list data) / real (length data) / 255;
                    volumeEvents = (case onVolumeChange a1 of
                                      None \<Rightarrow> [] | Some cb \<Rightarrow> [VolumeCallback cb average]);
                    volumeResult = (case onVolumeChange a1 of
                                      None \<Rightarrow> Inr () | Some cb \<Rightarrow> volumeCallback env cb average);
                    bands = extractFrequencyBands a1;
                    frequencyEvents = (case onFrequencyChange a1 of
                                         None \<Rightarrow> [] | Some cb \<Rightarrow> [FrequencyCallback cb bands]);
                    frequencyResult = (case onFrequencyChange a1 of
                                         None \<Rightarrow> Inr ()
                                       | Some cb \<Rightarrow> frequencyCallback env cb bands)
                in case volumeResult of
                     Inl e \<Rightarrow> (Inl e, a1, volumeEvents)
                   | Inr u \<Rightarrow>
                       (case frequencyResult of
                          Inl e \<Rightarrow> (Inl e, a1, volumeEvents @ frequencyEvents)
                        | Inr u' \<Rightarrow>
                            (Inr (), a1\<lparr>animationFrameId := Some (requestAnimationFrame env)\<rparr>,
                             volumeEvents @ frequencyEvents
                               @ [FrameScheduled (requestAnimationFrame env)]))))"

text \<open>The body of the \<^verbatim>\<open>try\<close> of \<^verbatim>\<open>startListening\<close> once the stream is there: whatever
  throws in it is logged and thrown again, with the state as it is at that point.\<close>

definition listenToStream ::
  "Platform \<Rightarrow> nat option \<Rightarrow> nat option \<Rightarrow> AudioAnalyzer
     \<Rightarrow> (js_error + unit) \<times> AudioAnalyzer \<times> AudioEvent list" where
  "listenToStream env onVolume onFrequency a2 =
     analyzeAudio env
       (a2\<lparr>isListening := True, onVolumeChange := onVolume, onFrequencyChange := onFrequency\<rparr>)"

text \<open>\<^verbatim>\<open>startListening\<close>: the exception that reaches the caller (if any), the state left
  behind and the events.\<close>

definition startListening ::
  "Platform \<Rightarrow> nat option \<Rightarrow> nat option \<Rightarrow> AudioAnalyzer
     \<Rightarrow> (js_error + unit) \<times> AudioAnalyzer \<times> AudioEvent list" where
  "startListening env onVolume onFrequency a =
     (case initialize env a of
        (Inl e, a1) \<Rightarrow> (Inl e, a1, [])
      | (Inr u, a1) \<Rightarrow>
          if audioContext a1 = None \<or> analyser a1 = None
          then (Inl (Error ''AudioContext not initialized''), a1, [])
          else case getUserMedia env of
                 Inl e \<Rightarrow> (Inl e, a1, [])
               | Inr stream \<Rightarrow>
                   if microphone a1 = None \<and> audioContext a1 \<noteq> None
                   then (case createMediaStreamSource env of
                           Inl e \<Rightarrow> (Inl e, a1, [])
                         | Inr source \<Rightarrow>
                             (let a2 = a1\<lparr>microphone := Some source\<rparr>
                              in case connectMicrophone env of
                                   Inl e \<Rightarrow> (Inl e, a2, [])
                                 | Inr u1 \<Rightarrow>
                                     (case connectAnalyser env of
                                        Inl e \<Rightarrow> (Inl e, a2, [])
                                      | Inr u2 \<Rightarrow> listenToStream env onVolume onFrequency a2)))
                   else listenToStream env onVolume onFrequency a1)"

definition stopListening :: "AudioAnalyzer \<Rightarrow> AudioAnalyzer" where
  "stopListening a = a\<lparr>isListening := False, animationFrameId := None, microphone := None\<rparr>"

text \<open>Sample data: a platform whose microphone request is rejected.\<close>

definition rejectingPlatform :: Platform where
  "rejectingPlatform =
     \<lparr>createAudioContext = Inr 48000, createAnalyser = Inr (),
      getUserMedia = Inl (Rejected ''NotAllowedError''),
      createMediaStreamSource = Inr 1, connectMicrophone = Inr (), connectAnalyser = Inr (),
      byteFrequencyData = [],
      volumeCallback = (\<lambda>cb v. Inr ()), frequencyCallback = (\<lambda>cb bands. Inr ()),
      requestAnimationFrame = 1\<rparr>"

section \<open>ExpressionController\<close>

datatype ExpressionType = Smile | Sad | Neutral | Surprised | Angry

record ExpressionState =
  type :: ExpressionType
  intensity :: real
  eyelidClosedness :: real
  eyebrowHeight :: real

record ExpressionController =
  model :: "Scene option"
  currentExpression :: ExpressionState
  targetExpression :: ExpressionState
  smoothingFactor :: real
  blendShapeMap :: "string \<rightharpoonup> real"

definition neutralExpression :: ExpressionState where
  "neutralExpression =
     \<lparr>type = Neutral, intensity = 0, eyelidClosedness = 0, eyebrowHeight = 0.5\<rparr>"

definition newExpressionController :: ExpressionController where
  "newExpressionController =
     \<lparr>model = None, currentExpression = neutralExpression,
      targetExpression = neutralExpression, smoothingFactor = 0.1,
      blendShapeMap = Map.empty\<rparr>"

fun getEyelidClosednessForExpression :: "ExpressionType \<Rightarrow> real" where
  "getEyelidClosednessForExpression Smile = 0.3"
| "getEyelidClosednessForExpression Sad = 0.2"
| "getEyelidClosednessForExpression Surprised = 0.0"
| "getEyelidClosednessForExpression Angry = 0.4"
| "getEyelidClosednessForExpression Neutral = 0"

fun getEyebrowHeightForExpression :: "ExpressionType \<Rightarrow> real" where
  "getEyebrowHeightForExpression Smile = 0.6"
| "getEyebrowHeightForExpression Sad = 0.2"
| "getEyebrowHeightForExpression Surprised = 0.9"
| "getEyebrowHeightForExpression Angry = 0.3"
| "getEyebrowHeightForExpression Neutral = 0.5"

text \<open>JavaScript truthiness of an index: \<^verbatim>\<open>undefined\<close> and \<^verbatim>\<open>0\<close> are falsy.\<close>

fun truthy :: "jsval \<Rightarrow> bool" where
  "truthy Undefined = False"
| "truthy (Num n) = (n \<noteq> 0)"

text \<open>The chain \<^verbatim>\<open>dict[n1] || dict[n2] || ...\<close>: the first truthy operand, or else the last
  operand, whatever it is. Operands are read from left to right, and only as far as needed.\<close>

fun orChain :: "(string \<rightharpoonup> nat) option \<Rightarrow> string list \<Rightarrow> js_error + jsval" where
  "orChain dict [] = Inr Undefined"
| "orChain dict [name] = getIndex dict name"
| "orChain dict (name # rest) =
     bindE (getIndex dict name) (\<lambda>v. if truthy v then Inr v else orChain dict rest)"

text \<open>One block of \<^verbatim>\<open>applyExpression\<close>: resolve the index through the chain and, unless it
  is \<^verbatim>\<open>undefined\<close>, write \<^verbatim>\<open>Math.min(1, value)\<close> there.\<close>

definition writeChannel :: "string list \<Rightarrow> real \<Rightarrow> Mesh \<Rightarrow> js_error + Mesh" where
  "writeChannel names v node =
     bindE (orChain (morphTargetDictionary node) names) (\<lambda>index.
       if index \<noteq> Undefined
       then bindE (setInfluence (morphTargetInfluences node) index (min 1 v)) (\<lambda>b.
              Inr (node\<lparr>morphTargetInfluences := Some b\<rparr>))
       else Inr node)"

definition applyExpressionMesh :: "ExpressionState \<Rightarrow> Mesh \<Rightarrow> js_error + Mesh" where
  "applyExpressionMesh e node =
     bindE (writeChannel [''smile'', ''Smile'', ''Smile_L'', ''Smile_R'']
              (if type e = Smile then intensity e * 0.8 else intensity e * 0.2) node) (\<lambda>n1.
     bindE (writeChannel [''sad'', ''Sad''] (if type e = Sad then intensity e else 0) n1) (\<lambda>n2.
     bindE (writeChannel [''surprised'', ''Surprised'']
              (if type e = Surprised then intensity e * 0.7 else 0) n2) (\<lambda>n3.
     bindE (writeChannel [''angry'', ''Angry'']
              (if type e = Angry then intensity e * 0.6 else 0) n3) (\<lambda>n4.
     bindE (writeChannel [''Blink'', ''blink''] (eyelidClosedness e) n4) (\<lambda>n5.
     writeChannel [''Brows_Up'', ''BrowsUp''] (eyebrowHeight e) n5)))))"

definition applyExpressionNode :: "ExpressionState \<Rightarrow> Object3D \<Rightarrow> js_error + Object3D" where
  "applyExpressionNode e node =
     (case node of
        OtherNode \<Rightarrow> Inr OtherNode
      | MeshNode mesh \<Rightarrow>
          if morphTargetInfluences mesh \<noteq> None \<and> morphTargetDictionary mesh \<noteq> None
          then bindE (applyExpressionMesh e mesh) (\<lambda>mesh'. Inr (MeshNode mesh'))
          else Inr (MeshNode mesh))"

text \<open>\<^verbatim>\<open>applyExpression\<close>: \<open>Inl\<close> is an exception that escapes the method.\<close>

definition applyExpression :: "ExpressionController \<Rightarrow> js_error + ExpressionController" where
  "applyExpression c =
     (case model c of
        None \<Rightarrow> Inr c
      | Some scene \<Rightarrow>
          bindE (traverse (applyExpressionNode (currentExpression c)) scene) (\<lambda>scene'.
            Inr (c\<lparr>model := Some scene'\<rparr>)))"

text \<open>The closure \<^verbatim>\<open>animate\<close> of \<^verbatim>\<open>animateToTarget\<close>, each \<^verbatim>\<open>requestAnimationFrame\<close> run
  in turn with nothing in between. The closure's counter is returned with the state.\<close>

function animate ::
  "int \<Rightarrow> ExpressionState \<Rightarrow> int \<Rightarrow> ExpressionController
     \<Rightarrow> js_error + ExpressionController \<times> int" where
  "animate frames startExpression frameCount0 c =
     (let frameCount = frameCount0 + 1;
          progress = min 1 (real_of_int frameCount / real_of_int frames);
          c1 = c\<lparr>currentExpression :=
                 \<lparr>type = type (targetExpression c),
                  intensity = intensity startExpression
                    + (intensity (targetExpression c) - intensity startExpression) * progress,
                  eyelidClosedness = eyelidClosedness startExpression
                    + (eyelidClosedness (targetExpression c)
                       - eyelidClosedness startExpression) * progress,
                  eyebrowHeight = eyebrowHeight startExpression
                    + (eyebrowHeight (targetExpression c) - eyebrowHeight startExpression)
                      * progress\<rparr>\<rparr>
      in case applyExpression c1 of
           Inl e \<Rightarrow> Inl e
         | Inr c2 \<Rightarrow>
             if frameCount < frames then animate frames startExpression frameCount c2
             else Inr (c2, frameCount))"
  by pat_completeness auto
termination
  by (relation "measure (\<lambda>(frames, startExpression, frameCount0, c). nat (frames - frameCount0))")
    auto

declare animate.simps [simp del]

definition animateToTarget ::
  "real \<Rightarrow> ExpressionController \<Rightarrow> js_error + ExpressionController \<times> int" where
  "animateToTarget duration c =
     (let frames = max 1 \<lfloor>duration / 16\<rfloor>;
          startExpression = currentExpression c
      in animate frames startExpression 0 c)"

definition setExpression ::
  "ExpressionType \<Rightarrow> real \<Rightarrow> real \<Rightarrow> ExpressionController
     \<Rightarrow> js_error + ExpressionController \<times> int" where
  "setExpression t i duration c =
     animateToTarget duration
       (c\<lparr>targetExpression :=
            \<lparr>type = t, intensity = max 0 (min 1 i),
             eyelidClosedness = getEyelidClosednessForExpression t,
             eyebrowHeight = getEyebrowHeightForExpression t\<rparr>\<rparr>)"

text \<open>The last operand of each of the six chains of \<^verbatim>\<open>applyExpression\<close>.\<close>

definition finalAliases :: "string list" where
  "finalAliases = [''Smile_R'', ''Sad'', ''Surprised'', ''Angry'', ''blink'', ''BrowsUp'']"

text \<open>Sample data: the face that \<^verbatim>\<open>setExpression('smile', 1, ...)\<close> ends on, and a controller
  whose only mesh has \<^verbatim>\<open>smile\<close> at index 0 and \<^verbatim>\<open>Blink\<close> at index 1.\<close>

definition smileFace :: ExpressionState where
  "smileFace = \<lparr>type = Smile, intensity = 1, eyelidClosedness = 0.3, eyebrowHeight = 0.6\<rparr>"

definition meshSmileBlink :: Mesh where
  "meshSmileBlink =
     \<lparr>morphTargetDictionary = Some [''smile'' \<mapsto> 0, ''Blink'' \<mapsto> 1],
      morphTargetInfluences = Some [Num 0 \<mapsto> 0.25, Num 1 \<mapsto> 0]\<rparr>"

definition controllerSmileBlink :: ExpressionController where
  "controllerSmileBlink =
     newExpressionController
       \<lparr>ExpressionController.model := Some [MeshNode meshSmileBlink],
        currentExpression := smileFace\<rparr>"

section \<open>LipSyncManager\<close>

text \<open>The six channels of \<^verbatim>\<open>MorphTargets\<close>. The source's field names are the letters
  \<^verbatim>\<open>A, I, U, E, O\<close> and \<^verbatim>\<open>neutral\<close>; the letters carry the prefix \<open>w\<close> here, since \<open>O\<close>
  is HOL's composition of relations.\<close>

record MorphTargets =
  wA :: real
  wI :: real
  wU :: real
  wE :: real
  wO :: real
  neutral :: real

text \<open>
  \<^verbatim>\<open>currentMorphWeights\<close> is a JavaScript object. Besides the six channels it inherits the
  methods of \<^verbatim>\<open>Object.prototype\<close> and the accessor \<^verbatim>\<open>__proto__\<close>, so the operator \<^verbatim>\<open>in\<close>
  answers true for their names too, and a read under such a name gives a function (an
  object for \<^verbatim>\<open>__proto__\<close>), not a number. A value is therefore a number or something that
  is not one. An own property that the code creates under such a name is a stray key:
  \<open>strayKeys\<close> lists them in the order of their creation, and what they hold is never a
  number.
\<close>

datatype weightValue = NumberValue real | NotANumber

definition objectPrototypeMethods :: "string list" where
  "objectPrototypeMethods =
     [''constructor'', ''hasOwnProperty'', ''isPrototypeOf'', ''propertyIsEnumerable'',
      ''toLocaleString'', ''toString'', ''valueOf'', ''__defineGetter__'',
      ''__defineSetter__'', ''__lookupGetter__'', ''__lookupSetter__'']"

record LipSyncManager =
  model :: "Scene option"
  morphTargets :: "string \<rightharpoonup> real"
  currentMorphWeights :: MorphTargets
  strayKeys :: "string list"
  smoothingFactor :: real

text \<open>The keys of the object literal, in its order, and \<^verbatim>\<open>Object.keys(this.currentMorphWeights)\<close>.\<close>

definition morphKeys :: "string list" where
  "morphKeys = [''A'', ''I'', ''U'', ''E'', ''O'', ''neutral'']"

definition objectKeys :: "LipSyncManager \<Rightarrow> string list" where
  "objectKeys m = morphKeys @ strayKeys m"

text \<open>The operator \<^verbatim>\<open>phoneme in this.currentMorphWeights\<close>.\<close>

definition hasProperty :: "LipSyncManager \<Rightarrow> string \<Rightarrow> bool" where
  "hasProperty m phoneme \<longleftrightarrow>
     phoneme \<in> set morphKeys \<or> phoneme \<in> set (strayKeys m)
     \<or> phoneme \<in> set objectPrototypeMethods \<or> phoneme = ''__proto__''"

text \<open>The six channels by name: \<open>None\<close> for any other name.\<close>

definition getWeight :: "MorphTargets \<Rightarrow> string \<Rightarrow> real option" where
  "getWeight w phoneme =
     (if phoneme = ''A'' then Some (wA w)
      else if phoneme = ''I'' then Some (wI w)
      else if phoneme = ''U'' then Some (wU w)
      else if phoneme = ''E'' then Some (wE w)
      else if phoneme = ''O'' then Some (wO w)
      else if phoneme = ''neutral'' then Some (neutral w)
      else None)"

definition putWeight :: "MorphTargets \<Rightarrow> string \<Rightarrow> real \<Rightarrow> MorphTargets" where
  "putWeight w phoneme v =
     (if phoneme = ''A'' then w\<lparr>wA := v\<rparr>
      else if phoneme = ''I'' then w\<lparr>wI := v\<rparr>
      else if phoneme = ''U'' then w\<lparr>wU := v\<rparr>
      else if phoneme = ''E'' then w\<lparr>wE := v\<rparr>
      else if phoneme = ''O'' then w\<lparr>wO := v\<rparr>
      else if phoneme = ''neutral'' then w\<lparr>neutral := v\<rparr>
      else w)"

text \<open>\<^verbatim>\<open>Object.entries(this.currentMorphWeights)\<close>: the six channels, then the stray keys.\<close>

definition objectEntries :: "LipSyncManager \<Rightarrow> (string \<times> weightValue) list" where
  "objectEntries m =
     [(''A'', NumberValue (wA (currentMorphWeights m))),
      (''I'', NumberValue (wI (currentMorphWeights m))),
      (''U'', NumberValue (wU (currentMorphWeights m))),
      (''E'', NumberValue (wE (currentMorphWeights m))),
      (''O'', NumberValue (wO (currentMorphWeights m))),
      (''neutral'', NumberValue (neutral (currentMorphWeights m)))]
     @ map (\<lambda>key. (key, NotANumber)) (strayKeys m)"

text \<open>The state of a fresh \<^verbatim>\<open>new LipSyncManager()\<close>.\<close>

definition initialWeights :: MorphTargets where
  "initialWeights = \<lparr>wA = 0, wI = 0, wU = 0, wE = 0, wO = 0, neutral = 1\<rparr>"

definition newLipSyncManager :: LipSyncManager where
  "newLipSyncManager =
     \<lparr>model = None, morphTargets = Map.empty, currentMorphWeights = initialWeights,
      strayKeys = [], smoothingFactor = 0.15\<rparr>"

text \<open>The exponential-smoothing step of \<^verbatim>\<open>setMorphWeight\<close>.\<close>

definition smoothStep :: "real \<Rightarrow> real \<Rightarrow> real \<Rightarrow> real" where
  "smoothStep current target factor = current + (target - current) * factor"

text \<open>\<^verbatim>\<open>this.currentMorphWeights[phoneme] || 0\<close>: the number of a channel; a stray key's
  text, an inherited method or the prototype object where the name has one; 0 for every
  other name.\<close>

definition readCurrent :: "LipSyncManager \<Rightarrow> string \<Rightarrow> weightValue" where
  "readCurrent m phoneme =
     (case getWeight (currentMorphWeights m) phoneme of
        Some c \<Rightarrow> NumberValue c
      | None \<Rightarrow> if hasProperty m phoneme then NotANumber else NumberValue 0)"

text \<open>\<^verbatim>\<open>current + (target - current) * this.smoothingFactor\<close>: with a \<^verbatim>\<open>current\<close> that is not
  a number the difference is \<^verbatim>\<open>NaN\<close> and the sum is a string.\<close>

definition smoothValue :: "weightValue \<Rightarrow> real \<Rightarrow> real \<Rightarrow> weightValue" where
  "smoothValue current target factor =
     (case current of
        NumberValue c \<Rightarrow> NumberValue (smoothStep c target factor)
      | NotANumber \<Rightarrow> NotANumber)"

text \<open>The assignment \<^verbatim>\<open>this.currentMorphWeights[phoneme] = smoothed\<close>. A value that is not
  a number goes to a stray key, a new one unless the key exists; the setter of
  \<^verbatim>\<open>__proto__\<close> ignores a string.\<close>

definition storeWeight :: "string \<Rightarrow> weightValue \<Rightarrow> LipSyncManager \<Rightarrow> LipSyncManager" where
  "storeWeight phoneme smoothed m =
     (case smoothed of
        NumberValue v \<Rightarrow>
          m\<lparr>currentMorphWeights := putWeight (currentMorphWeights m) phoneme v\<rparr>
      | NotANumber \<Rightarrow>
          if phoneme = ''__proto__'' \<or> phoneme \<in> set (strayKeys m) then m
          else m\<lparr>strayKeys := strayKeys m @ [phoneme]\<rparr>)"

definition setMorphWeight :: "string \<Rightarrow> real \<Rightarrow> LipSyncManager \<Rightarrow> LipSyncManager" where
  "setMorphWeight phoneme weight0 m =
     (let weight = max 0 (min 1 weight0);
          current = readCurrent m phoneme;
          target = weight;
          smoothed = smoothValue current target (smoothingFactor m)
      in if hasProperty m phoneme then storeWeight phoneme smoothed m else m)"

text \<open>The body of the \<^verbatim>\<open>Object.entries(...).forEach\<close> of \<^verbatim>\<open>applyMorphWeights\<close> on one
  mesh, for the entry of a channel: every property access is the fallible primitive,
  guarded as the source guards it.\<close>

definition writeChannelWeight :: "string \<Rightarrow> real \<Rightarrow> Mesh \<Rightarrow> js_error + Mesh" where
  "writeChannelWeight phoneme weight node =
     (if morphTargetDictionary node = None then Inr node
      else bindE (hasKey (morphTargetDictionary node) phoneme) (\<lambda>present.
        if \<not> present then Inr node
        else bindE (getIndex (morphTargetDictionary node) phoneme) (\<lambda>index.
          if morphTargetInfluences node \<noteq> None \<and> index \<noteq> Undefined
          then bindE (setInfluence (morphTargetInfluences node) index weight) (\<lambda>b.
                 Inr (node\<lparr>morphTargetInfluences := Some b\<rparr>))
          else Inr node)))"

text \<open>The same body for the entry of a stray key. Its name is that of an inherited
  method, so it is \<^verbatim>\<open>in\<close> every dictionary, and the index read is the mesh's own index for
  that name if it has one, and the inherited function otherwise; neither is
  \<^verbatim>\<open>undefined\<close>. What is written is not a number: an own index no longer holds a number,
  and the function as an index names a property that is no element of the array.\<close>

definition writeStrayWeight :: "string \<Rightarrow> Mesh \<Rightarrow> js_error + Mesh" where
  "writeStrayWeight key node =
     (case morphTargetDictionary node of
        None \<Rightarrow> Inr node
      | Some d \<Rightarrow>
          (case morphTargetInfluences node of
             None \<Rightarrow> Inr node
           | Some b \<Rightarrow>
               (case d key of
                  None \<Rightarrow> Inr node
                | Some i \<Rightarrow> Inr (node\<lparr>morphTargetInfluences := Some (b(Num i := None))\<rparr>))))"

definition writeMorphWeight :: "string \<times> weightValue \<Rightarrow> Mesh \<Rightarrow> js_error + Mesh" where
  "writeMorphWeight entry node =
     (case snd entry of
        NumberValue weight \<Rightarrow> writeChannelWeight (fst entry) weight node
      | NotANumber \<Rightarrow> writeStrayWeight (fst entry) node)"

fun writeMorphWeights :: "(string \<times> weightValue) list \<Rightarrow> Mesh \<Rightarrow> js_error + Mesh" where
  "writeMorphWeights [] node = Inr node"
| "writeMorphWeights (entry # rest) node =
     bindE (writeMorphWeight entry node) (writeMorphWeights rest)"

definition applyMorphNode ::
  "(string \<times> weightValue) list \<Rightarrow> Object3D \<Rightarrow> js_error + Object3D" where
  "applyMorphNode entries node =
     (case node of
        OtherNode \<Rightarrow> Inr OtherNode
      | MeshNode mesh \<Rightarrow>
          if morphTargetInfluences mesh \<noteq> None
          then bindE (writeMorphWeights entries mesh) (\<lambda>mesh'. Inr (MeshNode mesh'))
          else Inr (MeshNode mesh))"

text \<open>\<^verbatim>\<open>applyMorphWeights\<close>: \<open>Inl\<close> is an exception that escapes the method.\<close>

definition applyMorphWeights :: "LipSyncManager \<Rightarrow> js_error + LipSyncManager" where
  "applyMorphWeights m =
     (case model m of
        None \<Rightarrow> Inr m
      | Some scene \<Rightarrow>
          bindE (traverse (applyMorphNode (objectEntries m)) scene) (\<lambda>scene'.
            Inr (m\<lparr>model := Some scene'\<rparr>)))"

definition updateFromVolume :: "real \<Rightarrow> LipSyncManager \<Rightarrow> js_error + LipSyncManager" where
  "updateFromVolume volume m =
     (let mouthOpenness = min 1 (volume * 2);
          m1 = setMorphWeight ''A'' mouthOpenness m;
          m2 = setMorphWeight ''neutral'' (max 0 (1 - mouthOpenness)) m1
      in applyMorphWeights m2)"

definition updateFromFrequencyBands ::
  "FrequencyBands \<Rightarrow> LipSyncManager \<Rightarrow> js_error + LipSyncManager" where
  "updateFromFrequencyBands bands m =
     (let totalEnergy = (bO bands + bA bands + bE bands + bI bands + bU bands) / 5;
          m1 = setMorphWeight ''O'' (max 0 (bO bands - 0.1)) m;
          m2 = setMorphWeight ''A'' (max 0 (bA bands - 0.1)) m1;
          m3 = setMorphWeight ''E'' (max 0 (bE bands - 0.1)) m2;
          m4 = setMorphWeight ''I'' (max 0 (bI bands - 0.1)) m3;
          m5 = setMorphWeight ''U'' (max 0 (bU bands - 0.1)) m4;
          neutralWeight = max 0 (1 - totalEnergy * 2);
          m6 = setMorphWeight ''neutral'' neutralWeight m5
      in applyMorphWeights m6)"

text \<open>The \<^verbatim>\<open>forEach\<close> of \<^verbatim>\<open>playPhoneme\<close> over the keys.\<close>

fun resetKeys :: "string list \<Rightarrow> LipSyncManager \<Rightarrow> LipSyncManager" where
  "resetKeys [] m = m"
| "resetKeys (key # rest) m =
     resetKeys rest (if key \<noteq> ''neutral'' then setMorphWeight key 0 m else m)"

definition playPhoneme :: "string \<Rightarrow> LipSyncManager \<Rightarrow> js_error + LipSyncManager" where
  "playPhoneme phoneme m =
     (let m1 = resetKeys (objectKeys m) m;
          m2 = (if phoneme \<noteq> ''neutral''
                then setMorphWeight ''neutral'' 0 (setMorphWeight phoneme 1 m1)
                else setMorphWeight ''neutral'' 1 m1)
      in applyMorphWeights m2)"

definition reset :: "LipSyncManager \<Rightarrow> js_error + LipSyncManager" where
  "reset m = applyMorphWeights (m\<lparr>currentMorphWeights := initialWeights, strayKeys := []\<rparr>)"

definition setSmoothingFactor :: "real \<Rightarrow> LipSyncManager \<Rightarrow> LipSyncManager" where
  "setSmoothingFactor factor m = m\<lparr>smoothingFactor := max 0 (min 1 factor)\<rparr>"

text \<open>The range of the six channels, the same for everything that
  \<^verbatim>\<open>currentMorphWeights\<close> holds, and a sequence of calls on a manager.\<close>

definition inUnitInterval :: "weightValue \<Rightarrow> bool" where
  "inUnitInterval v = (case v of NumberValue r \<Rightarrow> 0 \<le> r \<and> r \<le> 1 | NotANumber \<Rightarrow> False)"

definition allWeightsInRange :: "LipSyncManager \<Rightarrow> bool" where
  "allWeightsInRange m = list_all (\<lambda>entry. inUnitInterval (snd entry)) (objectEntries m)"

definition weightsInRange :: "MorphTargets \<Rightarrow> bool" where
  "weightsInRange w \<longleftrightarrow>
     0 \<le> wA w \<and> wA w \<le> 1 \<and> 0 \<le> wI w \<and> wI w \<le> 1 \<and> 0 \<le> wU w \<and> wU w \<le> 1 \<and>
     0 \<le> wE w \<and> wE w \<le> 1 \<and> 0 \<le> wO w \<and> wO w \<le> 1 \<and> 0 \<le> neutral w \<and> neutral w \<le> 1"

definition lipInvariant :: "LipSyncManager \<Rightarrow> bool" where
  "lipInvariant m \<longleftrightarrow>
     weightsInRange (currentMorphWeights m) \<and> 0 \<le> smoothingFactor m \<and> smoothingFactor m \<le> 1"

datatype LipCall =
    SetMorphWeight string real
  | UpdateFromVolume real
  | UpdateFromFrequencyBands FrequencyBands
  | PlayPhoneme string
  | Reset
  | SetSmoothingFactor real

fun lipCall :: "LipCall \<Rightarrow> LipSyncManager \<Rightarrow> js_error + LipSyncManager" where
  "lipCall (SetMorphWeight phoneme weight) m = Inr (setMorphWeight phoneme weight m)"
| "lipCall (UpdateFromVolume volume) m = updateFromVolume volume m"
| "lipCall (UpdateFromFrequencyBands bands) m = updateFromFrequencyBands bands m"
| "lipCall (PlayPhoneme phoneme) m = playPhoneme phoneme m"
| "lipCall Reset m = reset m"
| "lipCall (SetSmoothingFactor factor) m = Inr (setSmoothingFactor factor m)"

text \<open>The phoneme names that a call passes on to \<^verbatim>\<open>setMorphWeight\<close>.\<close>

fun callNames :: "LipCall \<Rightarrow> string list" where
  "callNames (SetMorphWeight phoneme weight) = [phoneme]"
| "callNames (PlayPhoneme phoneme) = [phoneme]"
| "callNames c = []"

fun lipCalls :: "LipCall list \<Rightarrow> LipSyncManager \<Rightarrow> js_error + LipSyncManager" where
  "lipCalls [] m = Inr m"
| "lipCalls (c # cs) m = bindE (lipCall c m) (lipCalls cs)"

section \<open>MotionController\<close>

text \<open>
  Bones are objects shared between the scene and the controller's \<^verbatim>\<open>boneMap\<close>, so they
  live in a store: a bone is a reference, and the stage holds the rotation of every bone.
  The stage also records, in order, what an animation does that can be seen from outside:
  each frame's write to a bone and each \<^verbatim>\<open>setTimeout\<close>. Frames and timers run in the order
  they are scheduled, with nothing else touching the bone in between.

  The number of frames of a cycle is a whole number that the source computes in double
  arithmetic, and rounding can change it. So the duration of a gesture is computed here
  as the doubles compute it: \<open>fl\<close> rounds a real to the nearest number with a mantissa of
  53 bits, ties going to the even mantissa. The range of exponents is taken as unbounded;
  the values that this would change give frame budgets beyond \<open>2 ^ 53\<close>, where the frame
  counter of the source stops growing and the animation does not end. The rotations
  written in a frame are continuous quantities and stay real numbers.
\<close>

definition roundTiesToEven :: "real \<Rightarrow> int" where
  "roundTiesToEven q =
     (let f = \<lfloor>q\<rfloor>; r = q - real_of_int f
      in if r < 1 / 2 then f else if 1 / 2 < r then f + 1 else if even f then f else f + 1)"

definition fl :: "real \<Rightarrow> real" where
  "fl v =
     (if v = 0 then 0
      else (let e = \<lfloor>log 2 \<bar>v\<bar>\<rfloor>; u = 2 powr real_of_int (e - 52)
            in real_of_int (roundTiesToEven (v / u)) * u))"

record Euler =
  x :: real
  y :: real
  z :: real
  order :: string

datatype MotionEvent = Frame nat Euler | SetTimeout nat

record Stage =
  rotation :: "nat \<Rightarrow> Euler"
  events :: "MotionEvent list"

record MotionController =
  boneMap :: "string \<rightharpoonup> nat"

text \<open>The three assignments \<^verbatim>\<open>bone.rotation.x = ...\<close>, \<^verbatim>\<open>.y\<close>, \<^verbatim>\<open>.z\<close> of one frame.\<close>

definition writeFrame :: "nat \<Rightarrow> Euler \<Rightarrow> Euler \<Rightarrow> real \<Rightarrow> Stage \<Rightarrow> Stage" where
  "writeFrame bone start target eased st =
     (let r = (rotation st bone)
                \<lparr>x := x start + (x target - x start) * eased,
                 y := y start + (y target - y start) * eased,
                 z := z start + (z target - z start) * eased\<rparr>
      in st\<lparr>rotation := (rotation st)(bone := r), events := events st @ [Frame bone r]\<rparr>)"

text \<open>\<^verbatim>\<open>bone.rotation.copy(start)\<close>.\<close>

definition copyRotation :: "nat \<Rightarrow> Euler \<Rightarrow> Stage \<Rightarrow> Stage" where
  "copyRotation bone start st = st\<lparr>rotation := (rotation st)(bone := start)\<rparr>"

definition setTimeout :: "nat \<Rightarrow> Stage \<Rightarrow> Stage" where
  "setTimeout delay st = st\<lparr>events := events st @ [SetTimeout delay]\<rparr>"

text \<open>The closures \<^verbatim>\<open>animate\<close> and \<^verbatim>\<open>animateCycle\<close> of \<^verbatim>\<open>animateHeadRotation\<close>: one call is
  one frame; a new cycle starts the frame counter again at 0.\<close>

function animateHead ::
  "nat \<Rightarrow> Euler \<Rightarrow> Euler \<Rightarrow> nat \<Rightarrow> nat \<Rightarrow> nat \<Rightarrow> nat \<Rightarrow> Stage \<Rightarrow> Stage" where
  "animateHead bone start target totalFrames repeat cycleCount frameCount0 st =
     (let frameCount = frameCount0 + 1;
          progress = real frameCount / real totalFrames;
          eased = (if progress < 0.5 then 2 * progress * progress
                   else - 1 + (4 - 2 * progress) * progress);
          st1 = writeFrame bone start target eased st
      in if frameCount < totalFrames
         then animateHead bone start target totalFrames repeat cycleCount frameCount st1
         else if int cycleCount < int repeat - 1
         then animateHead bone start target totalFrames repeat (cycleCount + 1) 0
                (setTimeout 100 st1)
         else copyRotation bone start st1)"
  by pat_completeness auto
termination
  by (relation "measures
        [\<lambda>(bone, start, target, totalFrames, repeat, cycleCount, frameCount0, st).
           repeat - cycleCount,
         \<lambda>(bone, start, target, totalFrames, repeat, cycleCount, frameCount0, st).
           totalFrames - frameCount0]")
    auto

declare animateHead.simps [simp del]

text \<open>\<^verbatim>\<open>animateHeadRotation\<close>. The division by 16 is exact in doubles. With a duration
  below 16 ms the frame budget is 0, the source divides by zero and writes values that
  are not finite before it restores the rotation: that is \<open>None\<close> here (durations are
  positive, so the budget is not negative). With a budget beyond \<open>2 ^ 53\<close> the counter
  \<^verbatim>\<open>frameCount\<close> stops at \<open>2 ^ 53\<close>, where adding 1 changes nothing, and the first cycle
  never ends: \<open>None\<close> too.\<close>

definition animateHeadRotation ::
  "nat \<Rightarrow> Euler \<Rightarrow> Euler \<Rightarrow> real \<Rightarrow> nat \<Rightarrow> Stage \<Rightarrow> Stage option" where
  "animateHeadRotation bone start target duration repeat st =
     (let totalFrames = \<lfloor>duration / 16\<rfloor>
      in if totalFrames \<le> 0 \<or> 2 ^ 53 < totalFrames then None
         else Some (animateHead bone start target (nat totalFrames) repeat 0 0 st))"

text \<open>\<^verbatim>\<open>playNod\<close>. Without a head bone the call does nothing. With intensity 0 the duration
  \<^verbatim>\<open>600 * (1 / 0)\<close> is infinite and the animation never ends: \<open>None\<close>. Otherwise the
  duration is the double that \<^verbatim>\<open>600 * (1 / intensity)\<close> gives, with its two roundings.\<close>

definition playNod :: "real \<Rightarrow> MotionController \<Rightarrow> Stage \<Rightarrow> Stage option" where
  "playNod i mc st =
     (case boneMap mc ''head'' of
        None \<Rightarrow> Some st
      | Some head \<Rightarrow>
          if i = 0 then None
          else (let originalRotation = rotation st head;
                    duration = fl (600 * fl (1 / i))
                in animateHeadRotation head originalRotation
                     \<lparr>x = pi / 8 * i, y = 0, z = 0, order = ''XYZ''\<rparr> duration 2 st))"

text \<open>The case \<^verbatim>\<open>'nod'\<close> of \<^verbatim>\<open>playMotion\<close>.\<close>

definition playMotion_nod :: "real \<Rightarrow> MotionController \<Rightarrow> Stage \<Rightarrow> Stage option" where
  "playMotion_nod i mc st = playNod (max 0 (min 1 i)) mc st"

text \<open>The curve and the frames of a nod: the quadratic ease-in-out curve, the rotation
  that frame \<open>k\<close> of a cycle of \<open>n\<close> frames writes, the frame budget of a nod of intensity
  \<open>i\<close> as the source computes it, \<^verbatim>\<open>Math.floor((600 * (1 / i)) / 16)\<close>, and the frames of one
  cycle from the rotation \<open>r0\<close>.\<close>

definition easeInOut :: "real \<Rightarrow> real" where
  "easeInOut p = (if p < 0.5 then 2 * p * p else - 1 + (4 - 2 * p) * p)"

definition easedRotation :: "Euler \<Rightarrow> Euler \<Rightarrow> nat \<Rightarrow> nat \<Rightarrow> Euler" where
  "easedRotation start target n k =
     \<lparr>x = x start + (x target - x start) * easeInOut (real k / real n),
      y = y start + (y target - y start) * easeInOut (real k / real n),
      z = z start + (z target - z start) * easeInOut (real k / real n),
      order = order start\<rparr>"

definition nodFrameBudget :: "real \<Rightarrow> int" where
  "nodFrameBudget i = \<lfloor>fl (600 * fl (1 / i)) / 16\<rfloor>"

definition nodCycle :: "real \<Rightarrow> nat \<Rightarrow> Euler \<Rightarrow> MotionEvent list" where
  "nodCycle i head r0 =
     map (\<lambda>k. Frame head
                 (easedRotation r0 \<lparr>x = pi / 8 * i, y = 0, z = 0, order = ''XYZ''\<rparr>
                    (nat (nodFrameBudget i)) k))
       [1 ..< nat (nodFrameBudget i) + 1]"

text \<open>Sample data: a rig whose bone 0 is the head, at rest; the double nearest to
  0.9146341463414636; and the double \<open>2 ^ - 60\<close>.\<close>

definition sampleRig :: MotionController where
  "sampleRig = \<lparr>boneMap = [''head'' \<mapsto> 0]\<rparr>"

definition sampleStage :: Stage where
  "sampleStage =
     \<lparr>rotation = (\<lambda>bone. \<lparr>x = 0.1, y = 0, z = 0, order = ''XYZ''\<rparr>), events = []\<rparr>"

definition brisk :: real where
  "brisk = 4119146000643747 / 4503599627370496"

definition faint :: real where
  "faint = 1 / 2 ^ 60"

section \<open>Properties of the lip-sync manager\<close>


lemma mesh_self: "\<exists>b. (node::Mesh) = node\<lparr>morphTargetInfluences := b\<rparr>"
  by (rule exI [of _ "morphTargetInfluences node"]) simp

lemma writeMorphWeight_cases:
  "writeMorphWeight entry node = Inr node \<or>
   (\<exists>b. writeMorphWeight entry node = Inr (node\<lparr>morphTargetInfluences := Some b\<rparr>))"
  by (auto simp: writeMorphWeight_def writeChannelWeight_def writeStrayWeight_def hasKey_def
      getIndex_def bindE_def setInfluence_def split: option.splits weightValue.splits)

lemma writeMorphWeight_total:
  "\<exists>b. writeMorphWeight entry node = Inr (node\<lparr>morphTargetInfluences := b\<rparr>)"
  using writeMorphWeight_cases [of entry node] mesh_self [of node] by metis

lemma writeMorphWeights_total:
  "\<exists>b. writeMorphWeights entries node = Inr (node\<lparr>morphTargetInfluences := b\<rparr>)"
proof (induction entries arbitrary: node)
  case Nil
  show ?case using mesh_self [of node] by simp
next
  case (Cons entry rest)
  obtain b where b: "writeMorphWeight entry node = Inr (node\<lparr>morphTargetInfluences := b\<rparr>)"
    using writeMorphWeight_total by blast
  obtain b' where "writeMorphWeights rest (node\<lparr>morphTargetInfluences := b\<rparr>)
      = Inr (node\<lparr>morphTargetInfluences := b, morphTargetInfluences := b'\<rparr>)"
    using Cons.IH by blast
  with b show ?case by (auto simp: bindE_def)
qed

lemma applyMorphNode_total: "\<exists>node'. applyMorphNode entries node = Inr node'"
proof (cases node)
  case (MeshNode mesh)
  obtain b where "writeMorphWeights entries mesh = Inr (mesh\<lparr>morphTargetInfluences := b\<rparr>)"
    using writeMorphWeights_total by blast
  with MeshNode show ?thesis by (simp add: applyMorphNode_def bindE_def)
next
  case OtherNode
  then show ?thesis by (simp add: applyMorphNode_def)
qed

lemma traverse_total:
  assumes "\<And>node. \<exists>node'. f node = Inr node'"
  shows "\<exists>scene'. traverse f scene = Inr scene'"
proof (induction scene)
  case Nil
  show ?case by simp
next
  case (Cons node rest)
  obtain node' where "f node = Inr node'" using assms by blast
  moreover obtain rest' where "traverse f rest = Inr rest'" using Cons.IH by blast
  ultimately show ?case by (simp add: bindE_def)
qed

lemma applyMorphWeights_total:
  "\<exists>scene'. applyMorphWeights m = Inr (m\<lparr>model := scene'\<rparr>)"
proof (cases "model m")
  case None
  have "m = m\<lparr>model := model m\<rparr>" by simp
  with None show ?thesis by (metis applyMorphWeights_def option.simps(4))
next
  case (Some scene)
  obtain scene' where "traverse (applyMorphNode (objectEntries m)) scene = Inr scene'"
    using traverse_total [of "applyMorphNode (objectEntries m)"] applyMorphNode_total
    by blast
  with Some show ?thesis by (auto simp: applyMorphWeights_def bindE_def)
qed

text \<open>
  Claim C1. On a fresh manager (smoothing factor 0.15, weights \<open>A = 0\<close>, \<open>neutral = 1\<close>),
  \<^verbatim>\<open>playPhoneme('A')\<close> leaves \<open>A = 0.15\<close> and \<open>neutral = 0.85\<close>: each channel moves one
  smoothing step towards its target, it is not set to the target. The claim's values
  \<open>A = 1\<close>, \<open>neutral = 0\<close> are not reached.
\<close>

theorem playPhoneme_A_smoothed:
  "playPhoneme ''A'' newLipSyncManager =
     Inr (newLipSyncManager\<lparr>currentMorphWeights :=
            \<lparr>wA = 0.15, wI = 0, wU = 0, wE = 0, wO = 0, neutral = 0.85\<rparr>\<rparr>)"
  by (simp add: playPhoneme_def newLipSyncManager_def initialWeights_def morphKeys_def
      objectKeys_def setMorphWeight_def readCurrent_def smoothValue_def storeWeight_def
      hasProperty_def getWeight_def putWeight_def smoothStep_def applyMorphWeights_def)

text \<open>
  Claim C2. For a volume in \<open>[0, 1]\<close>, \<^verbatim>\<open>updateFromVolume\<close> returns normally; channel \<open>A\<close>
  becomes \<open>current + (min(1, 2 volume) - current) * smoothingFactor\<close>, channel \<open>neutral\<close>
  becomes \<open>current + (max(0, 1 - min(1, 2 volume)) - current) * smoothingFactor\<close>, and
  nothing else of the manager changes but the scene that the weights are written to.
\<close>

theorem updateFromVolume_smoothing_step:
  assumes "0 \<le> volume" and "volume \<le> 1"
  shows "\<exists>scene'. updateFromVolume volume m =
     Inr (m\<lparr>currentMorphWeights := (currentMorphWeights m)
          \<lparr>wA := wA (currentMorphWeights m)
                  + (min 1 (volume * 2) - wA (currentMorphWeights m)) * smoothingFactor m,
           neutral := neutral (currentMorphWeights m)
                  + (max 0 (1 - min 1 (volume * 2)) - neutral (currentMorphWeights m))
                    * smoothingFactor m\<rparr>,
         model := scene'\<rparr>)"
proof -
  let ?m2 = "setMorphWeight ''neutral'' (max 0 (1 - min 1 (volume * 2)))
               (setMorphWeight ''A'' (min 1 (volume * 2)) m)"
  have clampA: "max 0 (min 1 (min 1 (volume * 2))) = min 1 (volume * 2)"
    using assms by simp
  have clampN: "max 0 (min 1 (max 0 (1 - min 1 (volume * 2)))) = max 0 (1 - min 1 (volume * 2))"
    using assms by simp
  have m2: "?m2 = m\<lparr>currentMorphWeights := (currentMorphWeights m)
          \<lparr>wA := wA (currentMorphWeights m)
                  + (min 1 (volume * 2) - wA (currentMorphWeights m)) * smoothingFactor m,
           neutral := neutral (currentMorphWeights m)
                  + (max 0 (1 - min 1 (volume * 2)) - neutral (currentMorphWeights m))
                    * smoothingFactor m\<rparr>\<rparr>"
    unfolding setMorphWeight_def Let_def clampA clampN
    by (simp add: readCurrent_def smoothValue_def storeWeight_def hasProperty_def getWeight_def
        putWeight_def morphKeys_def smoothStep_def)
  obtain scene' where "applyMorphWeights ?m2 = Inr (?m2\<lparr>model := scene'\<rparr>)"
    using applyMorphWeights_total by blast
  then have "updateFromVolume volume m = Inr (?m2\<lparr>model := scene'\<rparr>)"
    by (simp add: updateFromVolume_def Let_def)
  then show ?thesis unfolding m2 by blast
qed


theorem updateFromVolume_smoothing_step_witness:
  "(0::real) \<le> 1 / 4 \<and> (1::real) / 4 \<le> 1 \<and>
   (\<exists>scene'. updateFromVolume (1 / 4) newLipSyncManager =
     Inr (newLipSyncManager\<lparr>currentMorphWeights :=
            \<lparr>wA = 0.075, wI = 0, wU = 0, wE = 0, wO = 0, neutral = 0.925\<rparr>,
          model := scene'\<rparr>))"
  using updateFromVolume_smoothing_step [of "1 / 4" newLipSyncManager]
  by (simp add: newLipSyncManager_def initialWeights_def)

lemma setMorphWeight_channel:
  "currentMorphWeights (setMorphWeight phoneme t m) =
     (if phoneme \<in> set morphKeys
      then putWeight (currentMorphWeights m) phoneme
             (the (getWeight (currentMorphWeights m) phoneme)
              + (max 0 (min 1 t) - the (getWeight (currentMorphWeights m) phoneme))
                * smoothingFactor m)
      else currentMorphWeights m)"
  by (auto simp: setMorphWeight_def Let_def readCurrent_def smoothValue_def storeWeight_def
      hasProperty_def getWeight_def morphKeys_def smoothStep_def)

lemma setMorphWeight_others:
  "smoothingFactor (setMorphWeight phoneme t m) = smoothingFactor m"
  "model (setMorphWeight phoneme t m) = model m"
  "morphTargets (setMorphWeight phoneme t m) = morphTargets m"
  "phoneme \<in> set morphKeys \<Longrightarrow> strayKeys (setMorphWeight phoneme t m) = strayKeys m"
  by (auto simp: setMorphWeight_def Let_def readCurrent_def smoothValue_def storeWeight_def
      getWeight_def morphKeys_def split: weightValue.splits option.splits)

text \<open>
  Claim C3. For five bands in \<open>[0, 1]\<close>, \<^verbatim>\<open>updateFromFrequencyBands\<close> returns normally and
  moves every phoneme channel one smoothing step towards \<open>max(0, band - 0.1)\<close> and
  \<open>neutral\<close> one smoothing step towards \<open>max(0, 1 - 2 * mean of the bands)\<close>.
\<close>

theorem updateFromFrequencyBands_targets:
  assumes "0 \<le> bO bands" "bO bands \<le> 1" "0 \<le> bA bands" "bA bands \<le> 1"
    "0 \<le> bE bands" "bE bands \<le> 1" "0 \<le> bI bands" "bI bands \<le> 1"
    "0 \<le> bU bands" "bU bands \<le> 1"
  shows "\<exists>scene'. updateFromFrequencyBands bands m =
     Inr (m\<lparr>currentMorphWeights :=
            \<lparr>wA = wA (currentMorphWeights m)
                  + (max 0 (bA bands - 0.1) - wA (currentMorphWeights m)) * smoothingFactor m,
             wI = wI (currentMorphWeights m)
                  + (max 0 (bI bands - 0.1) - wI (currentMorphWeights m)) * smoothingFactor m,
             wU = wU (currentMorphWeights m)
                  + (max 0 (bU bands - 0.1) - wU (currentMorphWeights m)) * smoothingFactor m,
             wE = wE (currentMorphWeights m)
                  + (max 0 (bE bands - 0.1) - wE (currentMorphWeights m)) * smoothingFactor m,
             wO = wO (currentMorphWeights m)
                  + (max 0 (bO bands - 0.1) - wO (currentMorphWeights m)) * smoothingFactor m,
             neutral = neutral (currentMorphWeights m)
                  + (max 0 (1 - (bO bands + bA bands + bE bands + bI bands + bU bands) / 5 * 2)
                     - neutral (currentMorphWeights m)) * smoothingFactor m\<rparr>,
          model := scene'\<rparr>)"
proof -
  define total where "total = (bO bands + bA bands + bE bands + bI bands + bU bands) / 5"
  define m6 where "m6 =
     setMorphWeight ''neutral'' (max 0 (1 - total * 2))
       (setMorphWeight ''U'' (max 0 (bU bands - 0.1))
         (setMorphWeight ''I'' (max 0 (bI bands - 0.1))
           (setMorphWeight ''E'' (max 0 (bE bands - 0.1))
             (setMorphWeight ''A'' (max 0 (bA bands - 0.1))
               (setMorphWeight ''O'' (max 0 (bO bands - 0.1)) m)))))"
  have floor_clamp: "min 1 (max 0 (b - 1 / 10)) = max 0 (b - 1 / 10)" if "b \<le> 1" for b :: real
    using that by simp
  have "0 \<le> total" using assms by (simp add: total_def)
  then have neutral_clamp: "max 0 (min 1 (max 0 (1 - total * 2))) = max 0 (1 - total * 2)"
    by simp
  have fields: "model m6 = model m" "morphTargets m6 = morphTargets m"
    "smoothingFactor m6 = smoothingFactor m" "strayKeys m6 = strayKeys m"
    by (simp_all add: m6_def setMorphWeight_others morphKeys_def)
  have weights: "currentMorphWeights m6 =
            \<lparr>wA = wA (currentMorphWeights m)
                  + (max 0 (bA bands - 0.1) - wA (currentMorphWeights m)) * smoothingFactor m,
             wI = wI (currentMorphWeights m)
                  + (max 0 (bI bands - 0.1) - wI (currentMorphWeights m)) * smoothingFactor m,
             wU = wU (currentMorphWeights m)
                  + (max 0 (bU bands - 0.1) - wU (currentMorphWeights m)) * smoothingFactor m,
             wE = wE (currentMorphWeights m)
                  + (max 0 (bE bands - 0.1) - wE (currentMorphWeights m)) * smoothingFactor m,
             wO = wO (currentMorphWeights m)
                  + (max 0 (bO bands - 0.1) - wO (currentMorphWeights m)) * smoothingFactor m,
             neutral = neutral (currentMorphWeights m)
                  + (max 0 (1 - total * 2) - neutral (currentMorphWeights m))
                    * smoothingFactor m\<rparr>"
    unfolding m6_def
    by (simp add: setMorphWeight_channel setMorphWeight_others floor_clamp neutral_clamp assms
        morphKeys_def getWeight_def putWeight_def)
  have m6_eq: "m6 = m\<lparr>currentMorphWeights := currentMorphWeights m6\<rparr>"
    using fields by simp
  obtain scene' where "applyMorphWeights m6 = Inr (m6\<lparr>model := scene'\<rparr>)"
    using applyMorphWeights_total by blast
  moreover have "updateFromFrequencyBands bands m = applyMorphWeights m6"
    by (simp add: updateFromFrequencyBands_def Let_def m6_def total_def)
  ultimately have "updateFromFrequencyBands bands m =
      Inr (m\<lparr>currentMorphWeights := currentMorphWeights m6, model := scene'\<rparr>)"
    using m6_eq by (metis)
  then show ?thesis unfolding weights total_def by blast
qed


theorem updateFromFrequencyBands_targets_witness:
  "0 \<le> bO \<lparr>bO = 0.5, bA = 1, bE = 0, bI = 0.05, bU = 0.3\<rparr>
   \<and> bA \<lparr>bO = 0.5, bA = 1, bE = 0, bI = 0.05, bU = 0.3\<rparr> \<le> 1
   \<and> (\<exists>scene'. updateFromFrequencyBands \<lparr>bO = 0.5, bA = 1, bE = 0, bI = 0.05, bU = 0.3\<rparr>
          newLipSyncManager =
        Inr (newLipSyncManager\<lparr>currentMorphWeights :=
               \<lparr>wA = 0.135, wI = 0, wU = 0.03, wE = 0, wO = 0.06, neutral = 0.889\<rparr>,
             model := scene'\<rparr>))"
  using updateFromFrequencyBands_targets
    [of "\<lparr>bO = 0.5, bA = 1, bE = 0, bI = 0.05, bU = 0.3\<rparr>" newLipSyncManager]
  by (simp add: newLipSyncManager_def initialWeights_def)

lemma smoothStep_in_range:
  fixes c t s :: real
  assumes "0 \<le> c" "c \<le> 1" "0 \<le> t" "t \<le> 1" "0 \<le> s" "s \<le> 1"
  shows "0 \<le> c + (t - c) * s" and "c + (t - c) * s \<le> 1"
proof -
  have eq: "c + (t - c) * s = (1 - s) * c + s * t" by (simp add: algebra_simps)
  have "0 \<le> (1 - s) * c" and "0 \<le> s * t" using assms by simp_all
  then show "0 \<le> c + (t - c) * s" unfolding eq by simp
  have "(1 - s) * c \<le> (1 - s) * 1"
    by (rule mult_left_mono) (use assms in simp_all)
  moreover have "s * t \<le> s * 1"
    by (rule mult_left_mono) (use assms in simp_all)
  ultimately have "(1 - s) * c \<le> 1 - s" and "s * t \<le> s" by simp_all
  then show "c + (t - c) * s \<le> 1" unfolding eq by simp
qed

lemma setMorphWeight_invariant:
  assumes "lipInvariant m"
  shows "lipInvariant (setMorphWeight phoneme t m)"
proof -
  have t: "0 \<le> max 0 (min 1 t)" "max 0 (min 1 t) \<le> 1" by simp_all
  note step = smoothStep_in_range [OF _ _ t]
  have "weightsInRange (currentMorphWeights (setMorphWeight phoneme t m))"
    using assms step
    by (auto simp: setMorphWeight_channel lipInvariant_def weightsInRange_def
        getWeight_def putWeight_def morphKeys_def)
  then show ?thesis using assms by (simp add: lipInvariant_def setMorphWeight_others)
qed

lemma resetKeys_invariant: "lipInvariant m \<Longrightarrow> lipInvariant (resetKeys keys m)"
  by (induction keys arbitrary: m) (simp_all add: setMorphWeight_invariant)

lemma applyMorphWeights_invariant:
  assumes "lipInvariant m"
  shows "\<exists>m'. applyMorphWeights m = Inr m' \<and> lipInvariant m'"
proof -
  obtain scene' where "applyMorphWeights m = Inr (m\<lparr>model := scene'\<rparr>)"
    using applyMorphWeights_total by blast
  moreover have "lipInvariant (m\<lparr>model := scene'\<rparr>)"
    using assms by (simp add: lipInvariant_def)
  ultimately show ?thesis by blast
qed

lemma lipCall_invariant:
  assumes "lipInvariant m"
  shows "\<exists>m'. lipCall c m = Inr m' \<and> lipInvariant m'"
proof (cases c)
  case (SetMorphWeight phoneme weight)
  then show ?thesis using assms by (simp add: setMorphWeight_invariant)
next
  case (UpdateFromVolume volume)
  then show ?thesis
    using assms
    by (simp add: updateFromVolume_def Let_def applyMorphWeights_invariant
        setMorphWeight_invariant)
next
  case (UpdateFromFrequencyBands bands)
  then show ?thesis
    using assms
    by (simp add: updateFromFrequencyBands_def Let_def applyMorphWeights_invariant
        setMorphWeight_invariant)
next
  case (PlayPhoneme phoneme)
  then show ?thesis
    using assms
    by (simp add: playPhoneme_def Let_def applyMorphWeights_invariant
        setMorphWeight_invariant resetKeys_invariant)
next
  case Reset
  have "lipInvariant (m\<lparr>currentMorphWeights := initialWeights, strayKeys := []\<rparr>)"
    using assms by (simp add: lipInvariant_def weightsInRange_def initialWeights_def)
  with Reset show ?thesis by (simp add: reset_def applyMorphWeights_invariant)
next
  case (SetSmoothingFactor factor)
  then show ?thesis using assms by (simp add: setSmoothingFactor_def lipInvariant_def)
qed

text \<open>
  The six channels stay in \<open>[0, 1]\<close> under every sequence of calls, with any names and any
  weights.
\<close>

lemma channel_weights_stay_in_unit_interval:
  assumes "weightsInRange (currentMorphWeights m)"
    and "0 \<le> smoothingFactor m" and "smoothingFactor m \<le> 1"
  shows "\<exists>m'. lipCalls cs m = Inr m' \<and> weightsInRange (currentMorphWeights m')
           \<and> 0 \<le> smoothingFactor m' \<and> smoothingFactor m' \<le> 1"
proof -
  have "lipInvariant m \<Longrightarrow> \<exists>m'. lipCalls cs m = Inr m' \<and> lipInvariant m'"
  proof (induction cs arbitrary: m)
    case Nil
    then show ?case by simp
  next
    case (Cons c cs)
    obtain m1 where m1: "lipCall c m = Inr m1" "lipInvariant m1"
      using lipCall_invariant [OF Cons.prems] by blast
    obtain m' where "lipCalls cs m1 = Inr m'" "lipInvariant m'"
      using Cons.IH [OF m1(2)] by blast
    with m1 show ?case by (simp add: bindE_def)
  qed
  with assms show ?thesis by (simp add: lipInvariant_def)
qed

text \<open>
  Stray keys come from the names of inherited methods only: a sequence of calls that
  passes no such name leaves a manager without stray keys without them, so that
  everything it stores is a number in \<open>[0, 1]\<close>.
\<close>

lemma allWeightsInRange_iff:
  "allWeightsInRange m \<longleftrightarrow> weightsInRange (currentMorphWeights m) \<and> strayKeys m = []"
  by (cases "strayKeys m")
     (auto simp: allWeightsInRange_def objectEntries_def inUnitInterval_def weightsInRange_def)

lemma setMorphWeight_no_stray:
  assumes "strayKeys m = []" and "phoneme \<notin> set objectPrototypeMethods"
  shows "strayKeys (setMorphWeight phoneme t m) = []"
  using assms
  by (auto simp: setMorphWeight_def Let_def readCurrent_def smoothValue_def storeWeight_def
      hasProperty_def getWeight_def morphKeys_def split: weightValue.splits option.splits)

lemma morphKeys_not_methods: "key \<in> set morphKeys \<Longrightarrow> key \<notin> set objectPrototypeMethods"
  by (auto simp: morphKeys_def objectPrototypeMethods_def)

lemma resetKeys_no_stray:
  assumes "strayKeys m = []" and "set keys \<subseteq> set morphKeys"
  shows "strayKeys (resetKeys keys m) = []"
  using assms
  by (induction keys arbitrary: m) (simp_all add: setMorphWeight_no_stray morphKeys_not_methods)

lemma applyMorphWeights_strayKeys:
  "applyMorphWeights m = Inr m' \<Longrightarrow> strayKeys m' = strayKeys m"
  using applyMorphWeights_total [of m] by auto

lemma lipCall_no_stray:
  assumes "strayKeys m = []" and "\<forall>name \<in> set (callNames c). name \<notin> set objectPrototypeMethods"
    and "lipCall c m = Inr m'"
  shows "strayKeys m' = []"
proof (cases c)
  case (SetMorphWeight phoneme weight)
  with assms show ?thesis by (auto simp: setMorphWeight_no_stray)
next
  case (UpdateFromVolume volume)
  with assms show ?thesis
    by (auto simp: updateFromVolume_def Let_def setMorphWeight_others morphKeys_def
        dest!: applyMorphWeights_strayKeys)
next
  case (UpdateFromFrequencyBands bands)
  with assms show ?thesis
    by (auto simp: updateFromFrequencyBands_def Let_def setMorphWeight_others morphKeys_def
        dest!: applyMorphWeights_strayKeys)
next
  case (PlayPhoneme phoneme)
  have keys: "strayKeys (resetKeys (objectKeys m) m) = []"
    using assms(1) by (simp add: resetKeys_no_stray objectKeys_def)
  from PlayPhoneme assms(2) have name: "phoneme \<notin> set objectPrototypeMethods" by simp
  have "strayKeys (setMorphWeight ''neutral'' w (setMorphWeight phoneme v (resetKeys (objectKeys m) m))) = []"
    for v w
    using keys name by (simp add: setMorphWeight_no_stray setMorphWeight_others morphKeys_def)
  moreover have "strayKeys (setMorphWeight ''neutral'' w (resetKeys (objectKeys m) m)) = []" for w
    using keys by (simp add: setMorphWeight_others morphKeys_def)
  ultimately show ?thesis
    using PlayPhoneme assms(3)
    by (auto simp: playPhoneme_def Let_def dest!: applyMorphWeights_strayKeys split: if_splits)
next
  case Reset
  with assms show ?thesis by (auto simp: reset_def dest!: applyMorphWeights_strayKeys)
next
  case (SetSmoothingFactor factor)
  with assms show ?thesis by (auto simp: setSmoothingFactor_def)
qed

lemma stored_weights_in_range_without_method_names:
  assumes "allWeightsInRange m"
    and "0 \<le> smoothingFactor m" and "smoothingFactor m \<le> 1"
    and "\<forall>c \<in> set cs. \<forall>name \<in> set (callNames c). name \<notin> set objectPrototypeMethods"
  shows "\<exists>m'. lipCalls cs m = Inr m' \<and> allWeightsInRange m'"
proof -
  have "lipInvariant m \<Longrightarrow> strayKeys m = [] \<Longrightarrow>
        \<forall>c \<in> set cs. \<forall>name \<in> set (callNames c). name \<notin> set objectPrototypeMethods \<Longrightarrow>
        \<exists>m'. lipCalls cs m = Inr m' \<and> lipInvariant m' \<and> strayKeys m' = []"
  proof (induction cs arbitrary: m)
    case Nil
    then show ?case by simp
  next
    case (Cons c cs)
    obtain m1 where m1: "lipCall c m = Inr m1" "lipInvariant m1"
      using lipCall_invariant [OF Cons.prems(1)] by blast
    have s1: "strayKeys m1 = []"
      using lipCall_no_stray [OF Cons.prems(2) _ m1(1)] Cons.prems(3) by simp
    obtain m' where "lipCalls cs m1 = Inr m'" "lipInvariant m'" "strayKeys m' = []"
      using Cons.IH [OF m1(2) s1] Cons.prems(3) by auto
    with m1 show ?case by (simp add: bindE_def)
  qed
  with assms show ?thesis by (auto simp: allWeightsInRange_iff lipInvariant_def)
qed

text \<open>
  Claim C4. The name \<^verbatim>\<open>toString\<close> is \<^verbatim>\<open>in\<close> the weights object, as every method inherited
  from \<^verbatim>\<open>Object.prototype\<close> is. On a fresh manager, where all that is stored is a number in
  \<open>[0, 1]\<close>, \<^verbatim>\<open>setMorphWeight('toString', 0.5)\<close> reads the inherited function as the current
  value and stores the outcome under a new own key \<^verbatim>\<open>toString\<close>: it is not a number, so
  what \<^verbatim>\<open>currentMorphWeights\<close> stores is no longer within \<open>[0, 1]\<close>.
\<close>

theorem setMorphWeight_inherited_name_stores_non_number:
  "allWeightsInRange newLipSyncManager
   \<and> objectEntries (setMorphWeight ''toString'' 0.5 newLipSyncManager) =
       [(''A'', NumberValue 0), (''I'', NumberValue 0), (''U'', NumberValue 0),
        (''E'', NumberValue 0), (''O'', NumberValue 0), (''neutral'', NumberValue 1),
        (''toString'', NotANumber)]
   \<and> \<not> allWeightsInRange (setMorphWeight ''toString'' 0.5 newLipSyncManager)"
  by (simp add: allWeightsInRange_def objectEntries_def inUnitInterval_def
      newLipSyncManager_def initialWeights_def setMorphWeight_def readCurrent_def
      smoothValue_def storeWeight_def hasProperty_def getWeight_def morphKeys_def
      objectPrototypeMethods_def)

section \<open>Properties of the expression controller\<close>

lemma orChain_total:
  "\<exists>v. orChain (Some d) names = Inr v"
  by (induction "Some d" names rule: orChain.induct)
     (auto simp: getIndex_def bindE_def split: option.splits)

lemma writeChannel_cases:
  assumes "morphTargetDictionary node \<noteq> None" and "morphTargetInfluences node \<noteq> None"
  shows "writeChannel names v node = Inr node \<or>
         (\<exists>b. writeChannel names v node = Inr (node\<lparr>morphTargetInfluences := Some b\<rparr>))"
proof -
  obtain d where d: "morphTargetDictionary node = Some d" using assms by auto
  obtain buf where buf: "morphTargetInfluences node = Some buf" using assms by auto
  obtain i where "orChain (Some d) names = Inr i" using orChain_total by blast
  then show ?thesis
    by (auto simp add: writeChannel_def d buf bindE_def setInfluence_def)
qed

lemma writeChannel_total:
  assumes "morphTargetDictionary node \<noteq> None" and "morphTargetInfluences node \<noteq> None"
  shows "\<exists>node'. writeChannel names v node = Inr node'
           \<and> morphTargetDictionary node' = morphTargetDictionary node
           \<and> morphTargetInfluences node' \<noteq> None"
  using writeChannel_cases [OF assms, of names v] assms by auto

lemma applyExpressionMesh_total:
  assumes "morphTargetDictionary node \<noteq> None" and "morphTargetInfluences node \<noteq> None"
  shows "\<exists>node'. applyExpressionMesh e node = Inr node'"
proof -
  let ?P = "\<lambda>n. morphTargetDictionary n \<noteq> None \<and> morphTargetInfluences n \<noteq> None"
  have step: "\<exists>n'. writeChannel names v n = Inr n' \<and> ?P n'" if "?P n" for names v n
    using writeChannel_total [of n names v] that by auto
  obtain n1 where n1: "writeChannel [''smile'', ''Smile'', ''Smile_L'', ''Smile_R'']
       (if type e = Smile then intensity e * 0.8 else intensity e * 0.2) node = Inr n1" "?P n1"
    using step assms by blast
  obtain n2 where n2: "writeChannel [''sad'', ''Sad''] (if type e = Sad then intensity e else 0) n1
       = Inr n2" "?P n2"
    using step n1(2) by blast
  obtain n3 where n3: "writeChannel [''surprised'', ''Surprised'']
       (if type e = Surprised then intensity e * 0.7 else 0) n2 = Inr n3" "?P n3"
    using step n2(2) by blast
  obtain n4 where n4: "writeChannel [''angry'', ''Angry'']
       (if type e = Angry then intensity e * 0.6 else 0) n3 = Inr n4" "?P n4"
    using step n3(2) by blast
  obtain n5 where n5: "writeChannel [''Blink'', ''blink''] (eyelidClosedness e) n4 = Inr n5" "?P n5"
    using step n4(2) by blast
  obtain n6 where n6: "writeChannel [''Brows_Up'', ''BrowsUp''] (eyebrowHeight e) n5 = Inr n6"
    using step n5(2) by blast
  show ?thesis
    unfolding applyExpressionMesh_def using n1(1) n2(1) n3(1) n4(1) n5(1) n6
    by (simp add: bindE_def)
qed

lemma applyExpressionNode_total: "\<exists>node'. applyExpressionNode e node = Inr node'"
proof (cases node)
  case (MeshNode mesh)
  show ?thesis
  proof (cases "morphTargetInfluences mesh \<noteq> None \<and> morphTargetDictionary mesh \<noteq> None")
    case True
    then obtain mesh' where "applyExpressionMesh e mesh = Inr mesh'"
      using applyExpressionMesh_total by blast
    with True MeshNode show ?thesis by (simp add: applyExpressionNode_def bindE_def)
  next
    case False
    with MeshNode show ?thesis by (auto simp add: applyExpressionNode_def)
  qed
next
  case OtherNode
  then show ?thesis by (simp add: applyExpressionNode_def)
qed

lemma applyExpression_total:
  "\<exists>scene'. applyExpression c = Inr (c\<lparr>ExpressionController.model := scene'\<rparr>)"
proof (cases "ExpressionController.model c")
  case None
  have "c = c\<lparr>ExpressionController.model := ExpressionController.model c\<rparr>" by simp
  with None show ?thesis by (metis applyExpression_def option.simps(4))
next
  case (Some scene)
  obtain scene' where "traverse (applyExpressionNode (currentExpression c)) scene = Inr scene'"
    using traverse_total [of "applyExpressionNode (currentExpression c)"]
      applyExpressionNode_total by blast
  with Some show ?thesis by (auto simp: applyExpression_def bindE_def)
qed

text \<open>
  Claim C5. From any state of the controller, \<^verbatim>\<open>setExpression('smile', 1, 0)\<close> returns
  normally after exactly one frame (\<open>max(1, floor(0 / 16)) = 1\<close>), and the current
  expression is then the target: type smile, intensity 1, \<open>eyelidClosedness = 0.3\<close>,
  \<open>eyebrowHeight = 0.6\<close>.
\<close>

theorem setExpression_smile_one_frame:
  "\<exists>scene'. setExpression Smile 1 0 c =
     Inr (c\<lparr>targetExpression :=
              \<lparr>type = Smile, intensity = 1, eyelidClosedness = 0.3, eyebrowHeight = 0.6\<rparr>,
            currentExpression :=
              \<lparr>type = Smile, intensity = 1, eyelidClosedness = 0.3, eyebrowHeight = 0.6\<rparr>,
            ExpressionController.model := scene'\<rparr>, 1)"
proof -
  define tgt where
    "tgt = \<lparr>type = Smile, intensity = 1, eyelidClosedness = 0.3, eyebrowHeight = 0.6\<rparr>"
  define c1 where "c1 = c\<lparr>targetExpression := tgt, currentExpression := tgt\<rparr>"
  obtain scene' where ap:
    "applyExpression c1 = Inr (c1\<lparr>ExpressionController.model := scene'\<rparr>)"
    using applyExpression_total by blast
  have "animate 1 (currentExpression c) 0 (c\<lparr>targetExpression := tgt\<rparr>)
          = Inr (c1\<lparr>ExpressionController.model := scene'\<rparr>, 1)"
    using ap by (subst animate.simps) (simp add: Let_def c1_def tgt_def)
  then have "setExpression Smile 1 0 c = Inr (c1\<lparr>ExpressionController.model := scene'\<rparr>, 1)"
    by (simp add: setExpression_def animateToTarget_def Let_def tgt_def)
  then show ?thesis unfolding c1_def tgt_def by blast
qed

lemma traverse_pointwise:
  "traverse f scene = Inr scene' \<Longrightarrow>
     length scene' = length scene \<and> (\<forall>k < length scene. f (scene ! k) = Inr (scene' ! k))"
proof (induction scene arbitrary: scene')
  case Nil
  then show ?case by simp
next
  case (Cons node rest)
  from Cons.prems obtain node' rest' where
    parts: "f node = Inr node'" "traverse f rest = Inr rest'" "scene' = node' # rest'"
    by (auto simp: bindE_def split: sum.splits)
  from Cons.IH [OF parts(2)] have
    ih: "length rest' = length rest" "\<forall>k < length rest. f (rest ! k) = Inr (rest' ! k)"
    by simp_all
  show ?case
  proof (intro conjI allI impI)
    show "length scene' = length (node # rest)" using parts(3) ih(1) by simp
  next
    fix k assume "k < length (node # rest)"
    then show "f ((node # rest) ! k) = Inr (scene' ! k)"
      using parts ih(2) by (cases k) simp_all
  qed
qed

lemma orChain_zero_is_last:
  "orChain (Some d) names = Inr (Num 0) \<Longrightarrow> names \<noteq> [] \<and> d (last names) = Some 0"
proof (induction "Some d" names rule: orChain.induct)
  case 1
  then show ?case by simp
next
  case (2 name)
  then show ?case by (auto simp: getIndex_def split: option.splits)
next
  case (3 name v va)
  obtain v0 where v0: "getIndex (Some d) name = Inr v0" by (simp add: getIndex_def)
  have nt: "\<not> truthy v0"
  proof
    assume t: "truthy v0"
    then have "orChain (Some d) (name # v # va) = Inr v0" using v0 by (simp add: bindE_def)
    with "3.prems" have "v0 = Num 0" by simp
    with t show False by simp
  qed
  then have "orChain (Some d) (v # va) = Inr (Num 0)"
    using "3.prems" v0 by (simp add: bindE_def)
  from "3.hyps" [OF nt this] show ?case by simp
qed

lemma writeChannel_keeps_zero:
  assumes "writeChannel names v node = Inr node'"
    and "morphTargetDictionary node = Some d"
    and "names \<noteq> [] \<longrightarrow> d (last names) \<noteq> Some 0"
  shows "morphTargetDictionary node' = Some d
     \<and> map_option (\<lambda>b. b (Num 0)) (morphTargetInfluences node')
         = map_option (\<lambda>b. b (Num 0)) (morphTargetInfluences node)"
proof -
  obtain i where i: "orChain (Some d) names = Inr i" using orChain_total by blast
  have "i \<noteq> Num 0" using orChain_zero_is_last [of d names] i assms(3) by auto
  then show ?thesis
    using assms(1,2) i
    by (auto simp: writeChannel_def bindE_def setInfluence_def split: option.splits if_splits)
qed

lemma applyExpressionMesh_keeps_zero:
  assumes "applyExpressionMesh e node = Inr node'"
    and "morphTargetDictionary node = Some d"
    and "\<forall>name \<in> set finalAliases. d name \<noteq> Some 0"
  shows "morphTargetDictionary node' = Some d
     \<and> map_option (\<lambda>b. b (Num 0)) (morphTargetInfluences node')
         = map_option (\<lambda>b. b (Num 0)) (morphTargetInfluences node)"
proof -
  from assms(1) obtain n1 n2 n3 n4 n5 where
    w1: "writeChannel [''smile'', ''Smile'', ''Smile_L'', ''Smile_R'']
           (if type e = Smile then intensity e * 0.8 else intensity e * 0.2) node = Inr n1" and
    w2: "writeChannel [''sad'', ''Sad''] (if type e = Sad then intensity e else 0) n1 = Inr n2" and
    w3: "writeChannel [''surprised'', ''Surprised'']
           (if type e = Surprised then intensity e * 0.7 else 0) n2 = Inr n3" and
    w4: "writeChannel [''angry'', ''Angry'']
           (if type e = Angry then intensity e * 0.6 else 0) n3 = Inr n4" and
    w5: "writeChannel [''Blink'', ''blink''] (eyelidClosedness e) n4 = Inr n5" and
    w6: "writeChannel [''Brows_Up'', ''BrowsUp''] (eyebrowHeight e) n5 = Inr node'"
    unfolding applyExpressionMesh_def bindE_def by (auto split: sum.splits)
  have fin: "d ''Smile_R'' \<noteq> Some 0" "d ''Sad'' \<noteq> Some 0" "d ''Surprised'' \<noteq> Some 0"
    "d ''Angry'' \<noteq> Some 0" "d ''blink'' \<noteq> Some 0" "d ''BrowsUp'' \<noteq> Some 0"
    using assms(3) by (simp_all add: finalAliases_def)
  note k1 = writeChannel_keeps_zero [OF w1 assms(2)]
  have s1: "morphTargetDictionary n1 = Some d" using k1 fin by simp
  note k2 = writeChannel_keeps_zero [OF w2 s1]
  have s2: "morphTargetDictionary n2 = Some d" using k2 fin by simp
  note k3 = writeChannel_keeps_zero [OF w3 s2]
  have s3: "morphTargetDictionary n3 = Some d" using k3 fin by simp
  note k4 = writeChannel_keeps_zero [OF w4 s3]
  have s4: "morphTargetDictionary n4 = Some d" using k4 fin by simp
  note k5 = writeChannel_keeps_zero [OF w5 s4]
  have s5: "morphTargetDictionary n5 = Some d" using k5 fin by simp
  note k6 = writeChannel_keeps_zero [OF w6 s5]
  show ?thesis using k1 k2 k3 k4 k5 k6 fin by simp
qed

text \<open>
  Claim C10, as amended. Take a mesh of the scene whose dictionary maps none of the last
  operands of the six chains (\<^verbatim>\<open>Smile_R\<close>, \<^verbatim>\<open>Sad\<close>, \<^verbatim>\<open>Surprised\<close>, \<^verbatim>\<open>Angry\<close>, \<^verbatim>\<open>blink\<close>,
  \<^verbatim>\<open>BrowsUp\<close>) to index 0; it may map any other name to 0, such as \<^verbatim>\<open>smile\<close>, \<^verbatim>\<open>sad\<close> or
  \<^verbatim>\<open>Blink\<close>. Then \<^verbatim>\<open>applyExpression\<close> returns normally and leaves that mesh's influence at
  index 0 as it was (absent if it was absent).
\<close>

theorem applyExpression_never_writes_index_zero:
  assumes "ExpressionController.model c = Some scene"
    and "k < length scene" and "scene ! k = MeshNode mesh"
    and "morphTargetDictionary mesh = Some d"
    and "\<forall>name \<in> set finalAliases. d name \<noteq> Some 0"
  shows "\<exists>scene' mesh'.
           applyExpression c = Inr (c\<lparr>ExpressionController.model := Some scene'\<rparr>)
         \<and> length scene' = length scene \<and> scene' ! k = MeshNode mesh'
         \<and> morphTargetDictionary mesh' = Some d
         \<and> map_option (\<lambda>b. b (Num 0)) (morphTargetInfluences mesh')
             = map_option (\<lambda>b. b (Num 0)) (morphTargetInfluences mesh)"
proof -
  obtain scene' where
    tr: "traverse (applyExpressionNode (currentExpression c)) scene = Inr scene'"
    using traverse_total [of "applyExpressionNode (currentExpression c)"]
      applyExpressionNode_total by blast
  then have run: "applyExpression c = Inr (c\<lparr>ExpressionController.model := Some scene'\<rparr>)"
    using assms(1) by (simp add: applyExpression_def bindE_def)
  from traverse_pointwise [OF tr] assms(2,3) have
    len: "length scene' = length scene" and
    node: "applyExpressionNode (currentExpression c) (MeshNode mesh) = Inr (scene' ! k)"
    by auto
  show ?thesis
  proof (cases "morphTargetInfluences mesh \<noteq> None")
    case True
    with node assms(4) obtain mesh' where
      m: "applyExpressionMesh (currentExpression c) mesh = Inr mesh'" "scene' ! k = MeshNode mesh'"
      by (auto simp: applyExpressionNode_def bindE_def split: sum.splits)
    from applyExpressionMesh_keeps_zero [OF m(1) assms(4,5)] run len m(2)
    show ?thesis by blast
  next
    case False
    with node have "scene' ! k = MeshNode mesh" by (simp add: applyExpressionNode_def)
    with run len assms(4) show ?thesis by blast
  qed
qed

theorem applyExpression_never_writes_index_zero_witness:
  "ExpressionController.model controllerSmileBlink = Some [MeshNode meshSmileBlink]
   \<and> morphTargetDictionary meshSmileBlink = Some [''smile'' \<mapsto> 0, ''Blink'' \<mapsto> 1]
   \<and> map [''smile'' \<mapsto> (0::nat), ''Blink'' \<mapsto> 1] finalAliases
       = [None, None, None, None, None, None]
   \<and> (\<exists>scene' mesh'.
         applyExpression controllerSmileBlink
           = Inr (controllerSmileBlink\<lparr>ExpressionController.model := Some scene'\<rparr>)
         \<and> scene' ! 0 = MeshNode mesh'
         \<and> map_option (\<lambda>b. b (Num 0)) (morphTargetInfluences mesh') = Some (Some 0.25))"
proof -
  let ?d = "[''smile'' \<mapsto> (0::nat), ''Blink'' \<mapsto> 1]"
  have h1: "ExpressionController.model controllerSmileBlink = Some [MeshNode meshSmileBlink]"
    by (simp add: controllerSmileBlink_def)
  have h2: "0 < length [MeshNode meshSmileBlink]" by simp
  have h3: "[MeshNode meshSmileBlink] ! 0 = MeshNode meshSmileBlink" by simp
  have h4: "morphTargetDictionary meshSmileBlink = Some ?d" by (simp add: meshSmileBlink_def)
  have h5: "\<forall>name \<in> set finalAliases. ?d name \<noteq> Some 0" by (simp add: finalAliases_def)
  have before: "map_option (\<lambda>b. b (Num 0)) (morphTargetInfluences meshSmileBlink)
                  = Some (Some 0.25)"
    by (simp add: meshSmileBlink_def)
  have h6: "map ?d finalAliases = [None, None, None, None, None, None]"
    by (simp add: finalAliases_def)
  from applyExpression_never_writes_index_zero [OF h1 h2 h3 h4 h5]
  show ?thesis unfolding before using h1 h4 h6 by blast
qed

text \<open>
  Claim C10 as stated fails. A mesh that maps \<^verbatim>\<open>BrowsUp\<close> to index 0 and has no other name
  gets its influence at index 0 written (0.5, the eyebrow height of the fresh controller):
  the last operand of a chain is the chain's value even when it is 0.
\<close>

theorem index_zero_written_counterexample:
  "applyExpression
     (newExpressionController
        \<lparr>ExpressionController.model :=
           Some [MeshNode \<lparr>morphTargetDictionary = Some [''BrowsUp'' \<mapsto> 0],
                           morphTargetInfluences = Some [Num 0 \<mapsto> 0]\<rparr>]\<rparr>)
   = Inr (newExpressionController
        \<lparr>ExpressionController.model :=
           Some [MeshNode \<lparr>morphTargetDictionary = Some [''BrowsUp'' \<mapsto> 0],
                           morphTargetInfluences = Some [Num 0 \<mapsto> 0.5]\<rparr>]\<rparr>)"
  by (simp add: applyExpression_def applyExpressionNode_def applyExpressionMesh_def
      writeChannel_def getIndex_def setInfluence_def bindE_def newExpressionController_def
      neutralExpression_def)

lemma applyExpression_without_model:
  "ExpressionController.model c = None \<Longrightarrow> applyExpression c = Inr c"
  by (simp add: applyExpression_def)

lemma applyMorphWeights_without_model: "model m = None \<Longrightarrow> applyMorphWeights m = Inr m"
  by (simp add: applyMorphWeights_def)

lemma writeChannel_never_undefined_key:
  assumes "writeChannel names v node = Inr node'"
  shows "map_option (\<lambda>b. b Undefined) (morphTargetInfluences node')
           = map_option (\<lambda>b. b Undefined) (morphTargetInfluences node)"
  using assms
  by (auto simp: writeChannel_def bindE_def setInfluence_def
      split: sum.splits option.splits if_splits)

lemma writeMorphWeight_never_undefined_key:
  assumes "writeMorphWeight entry node = Inr node'"
  shows "map_option (\<lambda>b. b Undefined) (morphTargetInfluences node')
           = map_option (\<lambda>b. b Undefined) (morphTargetInfluences node)"
  using assms
  by (auto simp: writeMorphWeight_def writeChannelWeight_def writeStrayWeight_def bindE_def
      setInfluence_def hasKey_def getIndex_def
      split: sum.splits option.splits if_splits weightValue.splits)

text \<open>
  Claim C8. The controller shows a smile of intensity 1 and its only mesh has the shape
  \<^verbatim>\<open>smile\<close>. When that shape is at index 0, \<^verbatim>\<open>applyExpression\<close> leaves the influence at 0: the
  channel is present and is not written. With the same shape at index 1 the influence
  becomes 0.8. (That the apply step never throws, does nothing without a model and never
  writes the key \<^verbatim>\<open>undefined\<close> are the lemmas above.)
\<close>

theorem smile_at_index_zero_not_written:
  "applyExpression
     (newExpressionController
        \<lparr>ExpressionController.model :=
           Some [MeshNode \<lparr>morphTargetDictionary = Some [''smile'' \<mapsto> 0],
                           morphTargetInfluences = Some [Num 0 \<mapsto> 0]\<rparr>],
         currentExpression := smileFace\<rparr>)
   = Inr (newExpressionController
        \<lparr>ExpressionController.model :=
           Some [MeshNode \<lparr>morphTargetDictionary = Some [''smile'' \<mapsto> 0],
                           morphTargetInfluences = Some [Num 0 \<mapsto> 0]\<rparr>],
         currentExpression := smileFace\<rparr>)
   \<and> applyExpression
     (newExpressionController
        \<lparr>ExpressionController.model :=
           Some [MeshNode \<lparr>morphTargetDictionary = Some [''smile'' \<mapsto> 1],
                           morphTargetInfluences = Some [Num 0 \<mapsto> 0, Num 1 \<mapsto> 0]\<rparr>],
         currentExpression := smileFace\<rparr>)
   = Inr (newExpressionController
        \<lparr>ExpressionController.model :=
           Some [MeshNode \<lparr>morphTargetDictionary = Some [''smile'' \<mapsto> 1],
                           morphTargetInfluences = Some [Num 0 \<mapsto> 0, Num 1 \<mapsto> 0.8]\<rparr>],
         currentExpression := smileFace\<rparr>)"
  by (simp add: applyExpression_def applyExpressionNode_def applyExpressionMesh_def
      writeChannel_def getIndex_def setInfluence_def bindE_def newExpressionController_def
      neutralExpression_def smileFace_def)

section \<open>Properties of the emotion analyzer\<close>

text \<open>
  Claim C6. Whenever the text has as many hits in the positive lexicon as in the negative
  one (none at all included), \<^verbatim>\<open>analyze\<close> returns type neutral, score 0.5 and intensity
  0.5, whatever the intensifiers and mitigators in the text and whatever the platform's
  \<^verbatim>\<open>toLowerCase\<close> does.
\<close>

theorem analyze_tie_is_neutral:
  assumes "countHits positiveWords (toLowerCase text) = countHits negativeWords (toLowerCase text)"
  shows "analyze toLowerCase text =
           \<lparr>EmotionScore.type = EmotionType.neutral, score = 0.5, EmotionScore.intensity = 0.5\<rparr>"
  using assms by (simp add: analyze_def Let_def)

text \<open>The sample text has one positive hit, one negative hit and an intensifier.\<close>

lemma tiedText_positive: "countHits positiveWords tiedText = 1"
  by (simp add: positiveWords_def countHits_def tiedText_def)

lemma tiedText_negative: "countHits negativeWords tiedText = 1"
  by (simp add: negativeWords_def countHits_def tiedText_def)

lemma tiedText_intensifier: "includesStr tiedText [12392, 12390, 12418]"
  by (simp add: tiedText_def)

theorem analyze_tie_is_neutral_witness:
  "countHits positiveWords ((\<lambda>s. s) tiedText) = countHits negativeWords ((\<lambda>s. s) tiedText)
   \<and> analyze (\<lambda>s. s) tiedText =
       \<lparr>EmotionScore.type = EmotionType.neutral, score = 0.5, EmotionScore.intensity = 0.5\<rparr>"
proof -
  have h: "countHits positiveWords ((\<lambda>s. s) tiedText) = countHits negativeWords ((\<lambda>s. s) tiedText)"
    by (simp add: tiedText_positive tiedText_negative)
  show ?thesis using h analyze_tie_is_neutral [of "\<lambda>s. s" tiedText, OF h] by simp
qed

text \<open>The empty string: no word of a lexicon is empty, so nothing is found in it.\<close>

lemma set_newSet: "set (newSet ws) = set ws"
  by (induction ws) auto

lemma countHits_no_hit:
  assumes "\<forall>w \<in> set words. \<not> includesStr t w"
  shows "countHits words t = 0"
proof -
  have "fold (\<lambda>word count. if includesStr t word then count + 1 else count) words n = n"
    if "\<forall>w \<in> set words. \<not> includesStr t w" for n :: nat
    using that by (induction words arbitrary: n) simp_all
  with assms show ?thesis by (simp add: countHits_def)
qed

lemma empty_text_no_hits:
  "countHits positiveWords [] = 0" "countHits negativeWords [] = 0"
  by (rule countHits_no_hit, simp add: positiveWords_def negativeWords_def set_newSet)+

lemma analyze_empty_text:
  assumes "toLowerCase [] = []"
  shows "analyze toLowerCase [] =
           \<lparr>EmotionScore.type = EmotionType.neutral, score = 0.5, EmotionScore.intensity = 0.5\<rparr>"
  using assms empty_text_no_hits by (simp add: analyze_def Let_def)

section \<open>Properties of the audio analyzer\<close>

text \<open>
  Claim C9, as amended. Whenever the microphone request is rejected, \<^verbatim>\<open>startListening\<close>
  fails, and when \<^verbatim>\<open>initialize\<close> went through and the analyser is there the error that
  reaches the caller is that rejection. No callback is registered or called and no frame
  is scheduled: \<^verbatim>\<open>isListening\<close>, both callbacks, \<^verbatim>\<open>microphone\<close> and \<^verbatim>\<open>animationFrameId\<close> hold
  their prior values. The state left behind is the one that \<^verbatim>\<open>initialize\<close> leaves: an
  analyzer that already had its audio context is left exactly as it was.
\<close>

theorem startListening_rejected_request:
  assumes "getUserMedia env = Inl e"
  shows "\<exists>e'. startListening env onVolume onFrequency a = (Inl e', snd (initialize env a), [])
     \<and> (fst (initialize env a) = Inr () \<and> analyser (snd (initialize env a)) \<noteq> None
          \<longrightarrow> e' = e)
     \<and> isListening (snd (initialize env a)) = isListening a
     \<and> onVolumeChange (snd (initialize env a)) = onVolumeChange a
     \<and> onFrequencyChange (snd (initialize env a)) = onFrequencyChange a
     \<and> microphone (snd (initialize env a)) = microphone a
     \<and> animationFrameId (snd (initialize env a)) = animationFrameId a
     \<and> (audioContext a \<noteq> None \<longrightarrow> snd (initialize env a) = a)"
proof -
  have fields: "isListening (snd (initialize env a)) = isListening a
     \<and> onVolumeChange (snd (initialize env a)) = onVolumeChange a
     \<and> onFrequencyChange (snd (initialize env a)) = onFrequencyChange a
     \<and> microphone (snd (initialize env a)) = microphone a
     \<and> animationFrameId (snd (initialize env a)) = animationFrameId a
     \<and> (audioContext a \<noteq> None \<longrightarrow> snd (initialize env a) = a)"
    by (simp add: initialize_def Let_def split: sum.splits)
  have ctx: "fst (initialize env a) = Inr () \<Longrightarrow> audioContext (snd (initialize env a)) \<noteq> None"
    by (auto simp: initialize_def Let_def split: sum.splits if_splits)
  obtain r a1 where init: "initialize env a = (r, a1)" by (cases "initialize env a")
  show ?thesis
  proof (cases r)
    case (Inl e0)
    with init fields show ?thesis by (simp add: startListening_def)
  next
    case (Inr u)
    with init ctx have c: "audioContext a1 \<noteq> None" by simp
    show ?thesis
    proof (cases "analyser a1 = None")
      case True
      with init Inr fields show ?thesis by (simp add: startListening_def)
    next
      case False
      with init Inr c assms fields show ?thesis by (auto simp: startListening_def)
    qed
  qed
qed

theorem startListening_rejected_request_witness:
  "getUserMedia rejectingPlatform = Inl (Rejected ''NotAllowedError'')
   \<and> startListening rejectingPlatform (Some 7) None newAudioAnalyzer
       = (Inl (Rejected ''NotAllowedError''),
          snd (initialize rejectingPlatform newAudioAnalyzer), [])
   \<and> isListening (snd (initialize rejectingPlatform newAudioAnalyzer)) = False
   \<and> onVolumeChange (snd (initialize rejectingPlatform newAudioAnalyzer)) = None
   \<and> microphone (snd (initialize rejectingPlatform newAudioAnalyzer)) = None
   \<and> animationFrameId (snd (initialize rejectingPlatform newAudioAnalyzer)) = None"
proof -
  have h: "getUserMedia rejectingPlatform = Inl (Rejected ''NotAllowedError'')"
    by (simp add: rejectingPlatform_def)
  have ok: "fst (initialize rejectingPlatform newAudioAnalyzer) = Inr ()
      \<and> analyser (snd (initialize rejectingPlatform newAudioAnalyzer)) \<noteq> None"
    by (simp add: initialize_def rejectingPlatform_def newAudioAnalyzer_def)
  from startListening_rejected_request [OF h, of "Some 7" None newAudioAnalyzer] ok h
  show ?thesis by (auto simp: newAudioAnalyzer_def)
qed

text \<open>
  Claim C9 as stated fails. On a fresh analyzer whose microphone request is rejected the
  rejection reaches the caller, but \<^verbatim>\<open>audioContext\<close> and \<^verbatim>\<open>dataArray\<close>, both \<^verbatim>\<open>null\<close> before the
  call, are set after it.
\<close>

theorem startListening_failure_counterexample:
  "fst (startListening rejectingPlatform (Some 7) None newAudioAnalyzer)
     = Inl (Rejected ''NotAllowedError'')
   \<and> audioContext newAudioAnalyzer = None
   \<and> audioContext (fst (snd (startListening rejectingPlatform (Some 7) None newAudioAnalyzer)))
       = Some \<lparr>AudioContext.sampleRate = 48000\<rparr>
   \<and> dataArray newAudioAnalyzer = None
   \<and> dataArray (fst (snd (startListening rejectingPlatform (Some 7) None newAudioAnalyzer)))
       = Some (replicate 1024 0)"
  by (simp add: startListening_def initialize_def rejectingPlatform_def newAudioAnalyzer_def)

text \<open>
  A failure later in the call leaves more behind, which is why the property above is
  about the rejected request: when \<^verbatim>\<open>microphone.connect\<close> throws, the microphone is already
  set.
\<close>

lemma startListening_connect_failure:
  "startListening
     (rejectingPlatform\<lparr>getUserMedia := Inr 3, connectMicrophone := Inl TypeError\<rparr>)
     (Some 7) None newAudioAnalyzer
   = (Inl TypeError,
      (snd (initialize rejectingPlatform newAudioAnalyzer))\<lparr>microphone := Some 1\<rparr>, [])"
  by (simp add: startListening_def initialize_def rejectingPlatform_def newAudioAnalyzer_def)


section \<open>Properties of the motion controller\<close>

lemma animateHead_step:
  "animateHead b s t n rep cyc fc st =
     (let st1 = writeFrame b s t (easeInOut (real (fc + 1) / real n)) st
      in if fc + 1 < n then animateHead b s t n rep cyc (fc + 1) st1
         else if int cyc < int rep - 1
         then animateHead b s t n rep (cyc + 1) 0 (setTimeout 100 st1)
         else copyRotation b s st1)"
  by (subst animateHead.simps) (simp only: Let_def easeInOut_def)

lemma writeFrame_eased:
  assumes "order (rotation st b) = order s"
  shows "writeFrame b s t (easeInOut (real k / real n)) st
         = st\<lparr>rotation := (rotation st)(b := easedRotation s t n k),
              events := events st @ [Frame b (easedRotation s t n k)]\<rparr>"
proof -
  have "(rotation st b)\<lparr>x := x s + (x t - x s) * easeInOut (real k / real n),
                         y := y s + (y t - y s) * easeInOut (real k / real n),
                         z := z s + (z t - z s) * easeInOut (real k / real n)\<rparr>
        = easedRotation s t n k"
    using assms by (cases "rotation st b") (simp add: easedRotation_def)
  then show ?thesis by (simp only: writeFrame_def Let_def)
qed

lemma animateHead_cycle:
  assumes "fc < n" and "order (rotation st b) = order s"
  shows "animateHead b s t n rep cyc fc st =
     (let st1 = st\<lparr>rotation := (rotation st)(b := easedRotation s t n n),
                   events := events st @ map (\<lambda>k. Frame b (easedRotation s t n k)) [Suc fc ..< Suc n]\<rparr>
      in if int cyc < int rep - 1
         then animateHead b s t n rep (cyc + 1) 0 (setTimeout 100 st1)
         else copyRotation b s st1)"
  using assms
proof (induction "n - fc" arbitrary: fc st)
  case 0
  then show ?case by simp
next
  case (Suc d)
  let ?st1 = "st\<lparr>rotation := (rotation st)(b := easedRotation s t n (fc + 1)),
                  events := events st @ [Frame b (easedRotation s t n (fc + 1))]\<rparr>"
  have wf: "writeFrame b s t (easeInOut (real (fc + 1) / real n)) st = ?st1"
    by (rule writeFrame_eased [OF Suc.prems(2)])
  show ?case
  proof (cases "fc + 1 < n")
    case True
    have d: "d = n - (fc + 1)" using Suc.hyps(2) by simp
    have ord: "order (rotation ?st1 b) = order s" by (simp add: easedRotation_def)
    have unfold: "animateHead b s t n rep cyc fc st = animateHead b s t n rep cyc (fc + 1) ?st1"
      using True by (subst animateHead_step) (simp only: Let_def wf if_True)
    have upt: "[Suc fc ..< Suc n] = Suc fc # [Suc (fc + 1) ..< Suc n]"
      using True by (simp add: upt_conv_Cons)
    show ?thesis
      unfolding unfold Suc.hyps(1) [OF d True ord] upt by (simp add: Let_def)
  next
    case False
    then have last: "fc + 1 = n" using Suc.prems(1) by simp
    have upt: "[Suc fc ..< Suc n] = [n]" using last by simp
    have "animateHead b s t n rep cyc fc st =
            (if int cyc < int rep - 1
             then animateHead b s t n rep (cyc + 1) 0 (setTimeout 100 ?st1)
             else copyRotation b s ?st1)"
      using False by (subst animateHead_step) (simp only: Let_def wf if_False)
    then show ?thesis unfolding upt using last by (simp add: Let_def)
  qed
qed

lemma animateHead_twice:
  assumes "0 < n" and "order (rotation st b) = order s"
  shows "animateHead b s t n 2 0 0 st =
     st\<lparr>rotation := (rotation st)(b := s),
        events := events st
          @ map (\<lambda>k. Frame b (easedRotation s t n k)) [1 ..< n + 1]
          @ [SetTimeout 100]
          @ map (\<lambda>k. Frame b (easedRotation s t n k)) [1 ..< n + 1]\<rparr>"
proof -
  let ?cycle = "map (\<lambda>k. Frame b (easedRotation s t n k)) [Suc 0 ..< Suc n]"
  let ?st1 = "st\<lparr>rotation := (rotation st)(b := easedRotation s t n n),
                  events := events st @ ?cycle\<rparr>"
  let ?st2 = "setTimeout 100 ?st1"
  have first: "animateHead b s t n 2 0 0 st = animateHead b s t n 2 1 0 ?st2"
    using animateHead_cycle [OF assms, of t 2 0] by (simp add: Let_def)
  have ord2: "order (rotation ?st2 b) = order s"
    by (simp add: setTimeout_def easedRotation_def)
  have second: "animateHead b s t n 2 1 0 ?st2 =
      copyRotation b s (?st2\<lparr>rotation := (rotation ?st2)(b := easedRotation s t n n),
                             events := events ?st2 @ ?cycle\<rparr>)"
    using animateHead_cycle [OF assms(1) ord2, of t 2 1] by (simp add: Let_def)
  show ?thesis
    unfolding first second by (simp add: copyRotation_def setTimeout_def)
qed

text \<open>Rounding to a double, evaluated: a value of the binade \<open>[2 ^ k, 2 ^ (k + 1))\<close> is
  rounded to a multiple of \<open>2 ^ k / 2 ^ 52\<close>, and it is not rounded below the binade.\<close>

lemma exponent_in_binade:
  fixes v :: real
  assumes "2 ^ k \<le> v" and "v < 2 ^ (k + 1)"
  shows "\<lfloor>log 2 \<bar>v\<bar>\<rfloor> = int k"
proof -
  have pos: "0 < v" using assms(1) by (smt (verit) zero_less_power)
  have "real k \<le> log 2 v"
    using assms(1) pos by (simp add: le_log_iff powr_realpow)
  moreover have "log 2 v < real k + 1"
    using assms(2) pos by (simp add: log_less_iff powr_add powr_realpow)
  ultimately show ?thesis using pos by (intro floor_unique) simp_all
qed

lemma fl_in_binade:
  fixes v :: real
  assumes "2 ^ k \<le> v" and "v < 2 ^ (k + 1)"
  shows "fl v = real_of_int (roundTiesToEven (v * 2 ^ 52 / 2 ^ k)) * 2 ^ k / 2 ^ 52"
proof -
  have pos: "0 < v" using assms(1) by (smt (verit) zero_less_power)
  have u: "2 powr real_of_int (int k - 52) = (2::real) ^ k / 2 ^ 52"
    by (simp add: powr_diff powr_realpow)
  have e: "\<lfloor>log 2 \<bar>v\<bar>\<rfloor> = int k" by (rule exponent_in_binade [OF assms])
  show ?thesis
    unfolding fl_def Let_def e u using pos by simp
qed

lemma roundTiesToEven_ge_floor: "\<lfloor>q\<rfloor> \<le> roundTiesToEven q"
  by (simp add: roundTiesToEven_def Let_def)

lemma fl_lower_bound:
  fixes v :: real
  assumes "2 ^ k \<le> v"
  shows "2 ^ k \<le> fl v"
proof -
  have pos: "0 < v" using assms by (smt (verit) zero_less_power)
  define e where "e = \<lfloor>log 2 v\<rfloor>"
  have "real k \<le> log 2 v" using assms pos by (simp add: le_log_iff powr_realpow)
  then have ke: "int k \<le> e" unfolding e_def by (simp add: le_floor_iff)
  define j where "j = nat e"
  have ej: "e = int j" using ke by (simp add: j_def)
  have "real j \<le> log 2 v" using ej e_def by (metis of_int_floor_le of_int_of_nat_eq)
  then have lo: "2 ^ j \<le> v" using pos by (simp add: le_log_iff powr_realpow)
  have "log 2 v < real j + 1"
    using ej e_def by (metis floor_less_iff less_add_one of_int_of_nat_eq add.commute of_int_1 of_int_add floor_correct)
  then have hi: "v < 2 ^ (j + 1)" using pos by (simp add: log_less_iff powr_add powr_realpow)
  have "(2::real) ^ 52 \<le> v * 2 ^ 52 / 2 ^ j" using lo by (simp add: field_simps)
  then have "(2::int) ^ 52 \<le> \<lfloor>v * 2 ^ 52 / 2 ^ j\<rfloor>" by (simp add: le_floor_iff)
  then have "(2::int) ^ 52 \<le> roundTiesToEven (v * 2 ^ 52 / 2 ^ j)"
    using roundTiesToEven_ge_floor [of "v * 2 ^ 52 / 2 ^ j"] by linarith
  then have "(2::real) ^ 52 \<le> real_of_int (roundTiesToEven (v * 2 ^ 52 / 2 ^ j))"
    by (metis of_int_le_iff of_int_numeral of_int_power)
  then have "(2::real) ^ j \<le> fl v"
    unfolding fl_in_binade [OF lo hi] by (simp add: field_simps)
  moreover have "(2::real) ^ k \<le> 2 ^ j" using ke ej by (simp add: power_increasing)
  ultimately show ?thesis by linarith
qed

lemma nodFrameBudget_positive:
  assumes "0 < i" and "i \<le> 1"
  shows "0 < nodFrameBudget i"
proof -
  have "(2::real) ^ 0 \<le> 1 / i" using assms by (simp add: le_divide_eq)
  then have "(2::real) ^ 0 \<le> fl (1 / i)" by (rule fl_lower_bound)
  then have "(2::real) ^ 9 \<le> 600 * fl (1 / i)" by simp
  then have "(2::real) ^ 9 \<le> fl (600 * fl (1 / i))" by (rule fl_lower_bound)
  then have "(32::real) \<le> fl (600 * fl (1 / i)) / 16" by simp
  then have "(32::int) \<le> \<lfloor>fl (600 * fl (1 / i)) / 16\<rfloor>" by (simp add: le_floor_iff)
  then show ?thesis by (simp add: nodFrameBudget_def)
qed

lemma nod_run:
  assumes "0 < i" and "i \<le> 1" and "boneMap mc ''head'' = Some head"
    and "nodFrameBudget i \<le> 2 ^ 53"
  shows "playMotion_nod i mc st =
           Some (st\<lparr>events := events st @ nodCycle i head (rotation st head)
                               @ [SetTimeout 100] @ nodCycle i head (rotation st head)\<rparr>)
         \<and> int (length (nodCycle i head (rotation st head))) = nodFrameBudget i"
proof -
  let ?target = "\<lparr>x = pi / 8 * i, y = 0, z = 0, order = ''XYZ''\<rparr>"
  let ?n = "nat (nodFrameBudget i)"
  have clamp: "max 0 (min 1 i) = i" using assms by simp
  have pos: "0 < nodFrameBudget i" using nodFrameBudget_positive assms(1,2) by blast
  then have npos: "0 < ?n" by simp
  have run: "animateHead head (rotation st head) ?target ?n 2 0 0 st =
      st\<lparr>events := events st @ nodCycle i head (rotation st head)
                     @ [SetTimeout 100] @ nodCycle i head (rotation st head)\<rparr>"
    using animateHead_twice [OF npos, of st head "rotation st head" ?target]
    by (simp add: nodCycle_def)
  have "length (map f [1 ..< m + 1]) = m" for f :: "nat \<Rightarrow> MotionEvent" and m
    by simp
  then have "length (nodCycle i head (rotation st head)) = ?n"
    unfolding nodCycle_def .
  then have len: "int (length (nodCycle i head (rotation st head))) = nodFrameBudget i"
    using pos by simp
  have budget: "\<lfloor>fl (600 * fl (1 / i)) / 16\<rfloor> = nodFrameBudget i"
    by (simp only: nodFrameBudget_def)
  have ahr: "animateHeadRotation head (rotation st head) ?target (fl (600 * fl (1 / i))) 2 st =
      Some (animateHead head (rotation st head) ?target ?n 2 0 0 st)"
    unfolding animateHeadRotation_def Let_def budget using pos assms(4) by simp
  have "playNod i mc st =
      animateHeadRotation head (rotation st head) ?target (fl (600 * fl (1 / i))) 2 st"
    using assms(1,3) by (simp add: playNod_def Let_def)
  then have "playMotion_nod i mc st =
      Some (animateHead head (rotation st head) ?target ?n 2 0 0 st)"
    unfolding playMotion_nod_def clamp ahr .
  then show ?thesis unfolding run using len by blast
qed

text \<open>The frame budgets of the sample intensities.\<close>

lemma nodFrameBudget_one: "nodFrameBudget 1 = 37"
proof -
  have "fl 1 = 1" by (subst fl_in_binade [of 0]) (simp_all add: roundTiesToEven_def Let_def)
  moreover have "fl 600 = 600"
    by (subst fl_in_binade [of 9]) (simp_all add: roundTiesToEven_def Let_def)
  ultimately show ?thesis by (simp add: nodFrameBudget_def)
qed

lemma nodFrameBudget_brisk: "nodFrameBudget brisk = 41"
proof -
  have a: "fl (1 / brisk) = 4923935592591742 / 4503599627370496"
    unfolding brisk_def
    by (subst fl_in_binade [of 0]) (simp_all add: roundTiesToEven_def Let_def)
  have "fl (600 * (4923935592591742 / 4503599627370496)) = 656"
    by (subst fl_in_binade [of 9]) (simp_all add: roundTiesToEven_def Let_def)
  then show ?thesis by (simp add: nodFrameBudget_def a)
qed

lemma exact_budget_brisk: "\<lfloor>(600 / brisk) / 16\<rfloor> = 40"
  by (simp add: brisk_def)

lemma rounded_budget_brisk: "\<lfloor>fl (600 / brisk) / 16\<rfloor> = 40"
proof -
  have f: "fl (600 / brisk) = 5770237022568447 * 512 / 4503599627370496"
    unfolding brisk_def
    by (subst fl_in_binade [of 9]) (simp_all add: roundTiesToEven_def Let_def)
  show ?thesis unfolding f by simp
qed

lemma nodFrameBudget_faint: "nodFrameBudget faint = 600 * 2 ^ 56"
proof -
  have a: "fl (1 / faint) = 2 ^ 60"
    unfolding faint_def
    by (subst fl_in_binade [of 60]) (simp_all add: roundTiesToEven_def Let_def)
  have "fl (600 * 2 ^ 60) = 600 * 2 ^ 60"
    by (subst fl_in_binade [of 69]) (simp_all add: roundTiesToEven_def Let_def)
  then show ?thesis by (simp add: nodFrameBudget_def a)
qed

text \<open>
  Claim C7, as amended. For an intensity \<open>i\<close> with \<open>0 < i \<le> 1\<close>, a rig with a head bone
  and a frame budget \<^verbatim>\<open>Math.floor((600 * (1 / i)) / 16)\<close>, computed in doubles, of at most
  \<open>2 ^ 53\<close>, \<^verbatim>\<open>playMotion('nod', i)\<close> ends, and what it has done is: the frames of one cycle,
  a \<^verbatim>\<open>setTimeout\<close> of 100 ms, the frames of a second cycle. A cycle has as many frames as
  the budget says, and frame \<open>k\<close> writes the point of the quadratic ease-in-out curve at
  \<open>k / frames\<close> between the rotation at the call and the target. Nothing else of the
  stage has changed: the head bone, like every other bone, has the rotation it had at
  the call.
\<close>

theorem nod_restores_head_rotation:
  assumes "0 < i" and "i \<le> 1" and "boneMap mc ''head'' = Some head"
    and "nodFrameBudget i \<le> 2 ^ 53"
  shows "playMotion_nod i mc st =
           Some (st\<lparr>events := events st @ nodCycle i head (rotation st head)
                               @ [SetTimeout 100] @ nodCycle i head (rotation st head)\<rparr>)
         \<and> int (length (nodCycle i head (rotation st head))) = nodFrameBudget i"
  using assms by (rule nod_run)

theorem nod_restores_head_rotation_witness:
  "(0::real) < 1 \<and> (1::real) \<le> 1 \<and> boneMap sampleRig ''head'' = Some 0
   \<and> nodFrameBudget 1 = 37
   \<and> playMotion_nod 1 sampleRig sampleStage =
        Some (sampleStage\<lparr>events := events sampleStage @ nodCycle 1 0 (rotation sampleStage 0)
                               @ [SetTimeout 100] @ nodCycle 1 0 (rotation sampleStage 0)\<rparr>)
   \<and> length (nodCycle 1 0 (rotation sampleStage 0)) = 37"
proof -
  have h: "(0::real) < 1" "(1::real) \<le> 1" "boneMap sampleRig ''head'' = Some 0"
    "nodFrameBudget 1 \<le> 2 ^ 53"
    by (simp_all add: sampleRig_def nodFrameBudget_one)
  from nod_restores_head_rotation [OF h, of sampleStage] h(3) nodFrameBudget_one
  show ?thesis by simp
qed

text \<open>
  Claim C7 as stated fails. At the intensity 0.9146341463414636 the source computes
  \<^verbatim>\<open>600 * (1 / i)\<close> as exactly 656 and runs 41 frames in each cycle, while
  \<open>floor((600 / i) / 16)\<close> is 40, in exact arithmetic and in doubles alike. At the intensity
  \<open>2 ^ - 60\<close> the frame budget is \<open>600 * 2 ^ 56\<close>, beyond \<open>2 ^ 53\<close>, and the nod never ends.
\<close>

theorem nod_frame_count_counterexample:
  "playMotion_nod brisk sampleRig sampleStage =
     Some (sampleStage\<lparr>events := events sampleStage @ nodCycle brisk 0 (rotation sampleStage 0)
                            @ [SetTimeout 100] @ nodCycle brisk 0 (rotation sampleStage 0)\<rparr>)
   \<and> length (nodCycle brisk 0 (rotation sampleStage 0)) = 41
   \<and> \<lfloor>(600 / brisk) / 16\<rfloor> = 40
   \<and> \<lfloor>fl (600 / brisk) / 16\<rfloor> = 40
   \<and> playMotion_nod faint sampleRig sampleStage = None"
proof -
  have h: "0 < brisk" "brisk \<le> 1" "boneMap sampleRig ''head'' = Some 0"
    by (simp_all add: brisk_def sampleRig_def)
  have b: "nodFrameBudget brisk \<le> 2 ^ 53" by (simp add: nodFrameBudget_brisk)
  have never: "playMotion_nod faint sampleRig sampleStage = None"
  proof -
    have fb: "\<lfloor>fl (600 * fl (1 / faint)) / 16\<rfloor> = 600 * 2 ^ 56"
      using nodFrameBudget_faint by (simp only: nodFrameBudget_def)
    have ahr: "animateHeadRotation b s t (fl (600 * fl (1 / faint))) 2 sampleStage = None"
      for b s t
      unfolding animateHeadRotation_def Let_def fb by simp
    have "playNod faint sampleRig sampleStage = None"
      unfolding playNod_def Let_def ahr by (simp add: sampleRig_def faint_def)
    moreover have "max 0 (min 1 faint) = faint" by (simp add: faint_def)
    ultimately show ?thesis by (simp only: playMotion_nod_def)
  qed
  from nod_run [OF h b, of sampleStage] nodFrameBudget_brisk exact_budget_brisk
    rounded_budget_brisk never
  show ?thesis by simp
qed


end
